theory Spec2Isabelle
  imports Complex_Main "HOL-Library.Multiset"
begin

section \<open>Data model\<close>

text \<open>
  The web search unit of \<^verbatim>\<open>lib/search-service.ts\<close> (interface \<^verbatim>\<open>SearchResult\<close>).
  JavaScript numbers that carry a relevance score are modelled as reals: every
  score the code computes is a short decimal combination, and no property below
  depends on rounding. The two optional fields are options.

  A JavaScript string is the sequence of its UTF-16 code units. The model covers the
  strings whose code units lie below 0x100: a \<^typ>\<open>char\<close> is such a code unit, and
  \<^const>\<open>length\<close> is the \<^verbatim>\<open>length\<close> of the string.
\<close>

record SearchResult =
  title :: string
  url :: string
  snippet :: string
  domain :: string
  score :: real
  published_date :: "string option"
  author :: "string option"

text \<open>Every \<^verbatim>\<open>throw\<close> and rejected promise is one error value.\<close>

datatype error = Thrown

section \<open>JavaScript helpers\<close>

text \<open>\<^verbatim>\<open>Array.prototype.join(sep)\<close> on an array of strings.\<close>

fun joinWith :: "string \<Rightarrow> string list \<Rightarrow> string" where
  "joinWith sep [] = []"
| "joinWith sep [x] = x"
| "joinWith sep (x # y # ys) = x @ sep @ joinWith sep (y # ys)"

text \<open>\<^verbatim>\<open>String(n)\<close> of a non-negative integer, as template literals render an index.\<close>

definition digitChar :: "nat \<Rightarrow> char" where
  "digitChar n = ''0123456789'' ! n"

function showNat :: "nat \<Rightarrow> string" where
  "showNat n = (if n < 10 then [digitChar n] else showNat (n div 10) @ [digitChar (n mod 10)])"
  by pat_completeness auto
termination
  by (relation "measure id") auto

declare showNat.simps [simp del]

text \<open>\<^verbatim>\<open>s.includes(t)\<close>: \<open>t\<close> occurs in \<open>s\<close> as a contiguous substring.\<close>

fun isPrefixOf :: "string \<Rightarrow> string \<Rightarrow> bool" where
  "isPrefixOf [] s = True"
| "isPrefixOf (c # cs) [] = False"
| "isPrefixOf (c # cs) (d # ds) = (c = d \<and> isPrefixOf cs ds)"

fun strIncludes :: "string \<Rightarrow> string \<Rightarrow> bool" where
  "strIncludes [] t = (t = [])"
| "strIncludes (c # cs) t = (isPrefixOf t (c # cs) \<or> strIncludes cs t)"

text \<open>
  \<^verbatim>\<open>s.split(re)\<close> for a regular expression that matches the non-empty runs of the
  characters satisfying \<open>sep\<close>: the pieces between the runs, with an empty piece where the
  string starts or ends with a run.
\<close>

fun splitRuns :: "(char \<Rightarrow> bool) \<Rightarrow> string \<Rightarrow> string \<Rightarrow> string list" where
  "splitRuns sep cur [] = [rev cur]"
| "splitRuns sep cur (c # cs) =
     (if sep c then
        (case cs of
           d # ds \<Rightarrow> if sep d then splitRuns sep cur cs else rev cur # splitRuns sep [] cs
         | [] \<Rightarrow> rev cur # splitRuns sep [] cs)
      else splitRuns sep (c # cur) cs)"

text \<open>\<^verbatim>\<open>xs.slice(0, n)\<close> for an integer \<open>n\<close>: a negative end counts from the end.\<close>

definition slice0 :: "'a list \<Rightarrow> int \<Rightarrow> 'a list" where
  "slice0 xs n = (if n < 0 then take (nat (int (length xs) + n)) xs else take (nat n) xs)"

text \<open>
  \<^verbatim>\<open>encodeURIComponent\<close> of the platform: letters, digits and \<^verbatim>\<open>-_.!~*'()\<close> are
  kept, every other code unit is written in UTF-8 (one byte below 0x80, two bytes from
  0x80 to 0xFF) and each byte becomes \<^verbatim>\<open>%XX\<close>.
\<close>

definition hexDigit :: "nat \<Rightarrow> char" where
  "hexDigit n = ''0123456789ABCDEF'' ! n"

definition isUnreserved :: "char \<Rightarrow> bool" where
  "isUnreserved c =
     (c \<in> set ''ABCDEFGHIJKLMNOPQRSTUVWXYZabcdefghijklmnopqrstuvwxyz0123456789-_.!~*()''
      \<or> c = CHR 0x27)"

definition percentByte :: "nat \<Rightarrow> string" where
  "percentByte b = [CHR ''%'', hexDigit (b div 16), hexDigit (b mod 16)]"

definition encodeURIComponent :: "string \<Rightarrow> string" where
  "encodeURIComponent s =
     concat (map (\<lambda>c. if isUnreserved c then [c]
                       else if (of_char c :: nat) < 128 then percentByte (of_char c)
                       else percentByte (192 + of_char c div 64) @ percentByte (128 + of_char c mod 64))
               s)"

section \<open>Deduplication (\<^verbatim>\<open>SearchService.removeDuplicates\<close>)\<close>

text \<open>
  \<^verbatim>\<open>const key = `${result.title}-${result.url}`\<close>: title, a hyphen, url.
\<close>

definition dedupKey :: "SearchResult \<Rightarrow> string" where
  "dedupKey r = title r @ ''-'' @ url r"

text \<open>
  The \<^verbatim>\<open>filter\<close> callback with its \<^verbatim>\<open>seen\<close> set threaded through the traversal.
\<close>

fun removeDuplicatesFrom :: "string set \<Rightarrow> SearchResult list \<Rightarrow> SearchResult list" where
  "removeDuplicatesFrom seen [] = []"
| "removeDuplicatesFrom seen (r # rs) =
     (if dedupKey r \<in> seen then removeDuplicatesFrom seen rs
      else r # removeDuplicatesFrom (insert (dedupKey r) seen) rs)"

definition removeDuplicates :: "SearchResult list \<Rightarrow> SearchResult list" where
  "removeDuplicates results = removeDuplicatesFrom {} results"

text \<open>Two results with different titles and different urls.\<close>

definition hyphenResultA :: SearchResult where
  "hyphenResultA = \<lparr>title = ''T'', url = ''http://a.com/p-http://b.com'', snippet = ''first'',
     domain = ''a.com'', score = 0.9, published_date = None, author = None\<rparr>"

definition hyphenResultB :: SearchResult where
  "hyphenResultB = \<lparr>title = ''T-http://a.com/p'', url = ''http://b.com'', snippet = ''second'',
     domain = ''b.com'', score = 0.8, published_date = None, author = None\<rparr>"


section \<open>Abstract reconstruction (\<^verbatim>\<open>reconstructAbstractFromInvertedIndex\<close>)\<close>

text \<open>
  The inverted index is given as the list \<^verbatim>\<open>Object.entries(index)\<close> yields, in the
  engine's enumeration order; \<^verbatim>\<open>undefined\<close> is \<open>None\<close>. The two nested loops push one
  \<open>(pos, word)\<close> pair per position.
\<close>

definition indexPositions :: "(string \<times> int list) list \<Rightarrow> (int \<times> string) list" where
  "indexPositions entries =
     concat (map (\<lambda>(word, inds). map (\<lambda>pos. (pos, word)) inds) entries)"

text \<open>
  \<^verbatim>\<open>positions.sort((a, b) => a.pos - b.pos)\<close> is a stable ascending sort on the
  position; \<^const>\<open>sort_key\<close> is one.
\<close>

definition reconstructAbstractFromInvertedIndex ::
    "(string \<times> int list) list option \<Rightarrow> string option" where
  "reconstructAbstractFromInvertedIndex index =
     (case index of
        None \<Rightarrow> None
      | Some entries \<Rightarrow>
          Some (joinWith '' '' (map snd (sort_key fst (indexPositions entries)))))"

section \<open>Page-size parameters of the works routes\<close>

text \<open>
  \<^verbatim>\<open>searchParams.get(name)\<close> returns a string or \<^verbatim>\<open>null\<close>; \<open>None\<close> is \<^verbatim>\<open>null\<close>.
  \<^verbatim>\<open>a || b\<close> on such values: \<^verbatim>\<open>null\<close> and the empty string are falsy.
\<close>

type_synonym searchParams = "string \<Rightarrow> string option"

definition truthyStr :: "string option \<Rightarrow> bool" where
  "truthyStr a = (case a of Some (c # cs) \<Rightarrow> True | _ \<Rightarrow> False)"

definition orStr :: "string option \<Rightarrow> string option \<Rightarrow> string option" where
  "orStr a b = (if truthyStr a then a else b)"

text \<open>\<^verbatim>\<open>x || undefined\<close> on an optional string.\<close>

definition orUndefined :: "string option \<Rightarrow> string option" where
  "orUndefined a = (if truthyStr a then a else None)"

text \<open>
  The white space of the platform (\<^verbatim>\<open>WhiteSpace\<close> and \<^verbatim>\<open>LineTerminator\<close>) among the code
  units below 0x100: tab, line feed, vertical tab, form feed, carriage return, space and
  the no-break space U+00A0.
\<close>

definition isSpaceChar :: "char \<Rightarrow> bool" where
  "isSpaceChar c =
     (c \<in> set [CHR 0x09, CHR 0x0A, CHR 0x0B, CHR 0x0C, CHR 0x0D, CHR '' '', CHR 0xA0])"

definition isDigitChar :: "char \<Rightarrow> bool" where
  "isDigitChar c = (c \<in> set ''0123456789'')"

definition digitVal :: "char \<Rightarrow> int" where
  "digitVal c = int (of_char c) - 48"

definition decimalValue :: "string \<Rightarrow> int" where
  "decimalValue ds = foldl (\<lambda>acc c. 10 * acc + digitVal c) 0 ds"

text \<open>
  \<^verbatim>\<open>parseInt(s, 10)\<close> on the strings of the model: leading white space is skipped, one
  sign is read, then the longest run of decimal digits; no digit gives \<^verbatim>\<open>NaN\<close>
  (\<open>None\<close>). The value is kept as an exact integer.
\<close>

definition parseInt10 :: "string \<Rightarrow> int option" where
  "parseInt10 s =
     (let t = dropWhile isSpaceChar s;
          neg = (case t of c # _ \<Rightarrow> c = CHR ''-'' | [] \<Rightarrow> False);
          u = (case t of c # r \<Rightarrow> if c = CHR ''-'' \<or> c = CHR ''+'' then r else t | [] \<Rightarrow> t);
          ds = takeWhile isDigitChar u
      in if ds = [] then None
         else Some (if neg then - decimalValue ds else decimalValue ds))"

text \<open>\<^verbatim>\<open>String.prototype.trim\<close> on the strings of the model.\<close>

definition trim :: "string \<Rightarrow> string" where
  "trim s = rev (dropWhile isSpaceChar (rev (dropWhile isSpaceChar s)))"

text \<open>
  The routes are stated for any behaviour of the two platform functions they call:
  \<open>trimOf\<close> is \<^verbatim>\<open>String.prototype.trim\<close> and \<open>parseIntOf\<close> is \<^verbatim>\<open>parseInt(s, 10)\<close>, \<open>None\<close>
  for \<^verbatim>\<open>NaN\<close>. \<open>jsPlatform\<close> is the platform on the strings of the model.
\<close>

record platform =
  trimOf :: "string \<Rightarrow> string"
  parseIntOf :: "string \<Rightarrow> int option"

definition jsPlatform :: platform where
  "jsPlatform = \<lparr>trimOf = trim, parseIntOf = parseInt10\<rparr>"

text \<open>\<^verbatim>\<open>n || d\<close> on the result of \<^verbatim>\<open>parseInt\<close>: \<^verbatim>\<open>NaN\<close> and 0 are falsy.\<close>

definition orDefault :: "int option \<Rightarrow> int \<Rightarrow> int" where
  "orDefault n d = (case n of None \<Rightarrow> d | Some v \<Rightarrow> if v = 0 then d else v)"

text \<open>
  The expression shared by the four routes,
  \<^verbatim>\<open>p ? Math.min(M, Math.max(1, parseInt(p, 10) || 25)) : 25\<close>.
\<close>

definition pageSizeOf :: "platform \<Rightarrow> int \<Rightarrow> string option \<Rightarrow> int" where
  "pageSizeOf pf maxSize p =
     (if truthyStr p then min maxSize (max 1 (orDefault (parseIntOf pf (the p)) 25)) else 25)"

text \<open>
  A route answers 400 for a missing query; otherwise it awaits one method of the search
  service and answers with the method's result, or with 500 when anything in its
  \<^verbatim>\<open>try\<close> block throws. The four methods are not among the source files at hand; each
  is given as the outcome of the awaited call, a function of the arguments it receives.
\<close>

datatype 'r routed = Status400 | Status200 'r | Status500

definition respond :: "error + 'r \<Rightarrow> 'r routed" where
  "respond outcome = (case outcome of Inr result \<Rightarrow> Status200 result | Inl e \<Rightarrow> Status500)"

text \<open>\<^verbatim>\<open>searchParams.get('q') || searchParams.get('query') || ''\<close>.\<close>

definition routeQuery :: "searchParams \<Rightarrow> string" where
  "routeQuery sp = (case orStr (orStr (sp ''q'') (sp ''query'')) (Some []) of Some q \<Rightarrow> q | None \<Rightarrow> [])"

text \<open>\<^verbatim>\<open>!q || q.trim().length === 0\<close>.\<close>

definition blankQuery :: "platform \<Rightarrow> searchParams \<Rightarrow> bool" where
  "blankQuery pf sp = (routeQuery sp = [] \<or> length (trimOf pf (routeQuery sp)) = 0)"

text \<open>
  \<^verbatim>\<open>app/api/arxiv/works/route.ts\<close>: \<^verbatim>\<open>start\<close> or \<^verbatim>\<open>cursor\<close>, at least 0; \<^verbatim>\<open>maxResults\<close> or
  \<^verbatim>\<open>perPage\<close>, at most 200.
\<close>

record arxivArgs =
  aa_start :: int
  aa_maxResults :: int
  aa_sortBy :: "string option"
  aa_sortOrder :: "string option"

definition arxivArgsOf :: "platform \<Rightarrow> searchParams \<Rightarrow> arxivArgs" where
  "arxivArgsOf pf sp =
     (let startParam = orStr (sp ''start'') (sp ''cursor'');
          maxResultsParam = orStr (sp ''maxResults'') (sp ''perPage'')
      in \<lparr>aa_start = (if truthyStr startParam
                       then max 0 (orDefault (parseIntOf pf (the startParam)) 0) else 0),
          aa_maxResults = pageSizeOf pf 200 maxResultsParam,
          aa_sortBy = orUndefined (sp ''sortBy''),
          aa_sortOrder = orUndefined (sp ''sortOrder'')\<rparr>)"

definition arxivWorksRoute ::
    "platform \<Rightarrow> (string \<Rightarrow> arxivArgs \<Rightarrow> error + 'r) \<Rightarrow> searchParams \<Rightarrow> 'r routed" where
  "arxivWorksRoute pf arxivWorks sp =
     (if blankQuery pf sp then Status400
      else respond (arxivWorks (routeQuery sp) (arxivArgsOf pf sp)))"

text \<open>The OpenAlex works route: \<^verbatim>\<open>perPage\<close> or \<^verbatim>\<open>per-page\<close>, at most 200.\<close>

record openAlexArgs =
  oq_cursor :: "string option"
  oq_perPage :: int
  oq_filter :: "string option"

definition openAlexArgsOf :: "platform \<Rightarrow> searchParams \<Rightarrow> openAlexArgs" where
  "openAlexArgsOf pf sp =
     \<lparr>oq_cursor = orUndefined (sp ''cursor''),
      oq_perPage = pageSizeOf pf 200 (orStr (sp ''perPage'') (sp ''per-page'')),
      oq_filter = orUndefined (sp ''filter'')\<rparr>"

definition openAlexWorksRoute ::
    "platform \<Rightarrow> (string \<Rightarrow> openAlexArgs \<Rightarrow> error + 'r) \<Rightarrow> searchParams \<Rightarrow> 'r routed" where
  "openAlexWorksRoute pf openAlexWorksSearch sp =
     (if blankQuery pf sp then Status400
      else respond (openAlexWorksSearch (routeQuery sp) (openAlexArgsOf pf sp)))"

text \<open>The Crossref works route: \<^verbatim>\<open>rows\<close> or \<^verbatim>\<open>perPage\<close>, at most 200.\<close>

record crossrefArgs =
  ca_cursor :: "string option"
  ca_rows :: int
  ca_filter :: "string option"

definition crossrefArgsOf :: "platform \<Rightarrow> searchParams \<Rightarrow> crossrefArgs" where
  "crossrefArgsOf pf sp =
     \<lparr>ca_cursor = orUndefined (sp ''cursor''),
      ca_rows = pageSizeOf pf 200 (orUndefined (orStr (sp ''rows'') (sp ''perPage''))),
      ca_filter = orUndefined (sp ''filter'')\<rparr>"

definition crossrefWorksRoute ::
    "platform \<Rightarrow> (string \<Rightarrow> crossrefArgs \<Rightarrow> error + 'r) \<Rightarrow> searchParams \<Rightarrow> 'r routed" where
  "crossrefWorksRoute pf crossrefWorks sp =
     (if blankQuery pf sp then Status400
      else respond (crossrefWorks (routeQuery sp) (crossrefArgsOf pf sp)))"

text \<open>The Europe PMC works route: \<^verbatim>\<open>pageSize\<close> or \<^verbatim>\<open>perPage\<close>, at most 100.\<close>

record europePmcArgs =
  ea_cursor :: "string option"
  ea_pageSize :: int

definition europePmcArgsOf :: "platform \<Rightarrow> searchParams \<Rightarrow> europePmcArgs" where
  "europePmcArgsOf pf sp =
     \<lparr>ea_cursor = orUndefined (sp ''cursor''),
      ea_pageSize = pageSizeOf pf 100 (orStr (sp ''pageSize'') (sp ''perPage''))\<rparr>"

definition europePmcWorksRoute ::
    "platform \<Rightarrow> (string \<Rightarrow> europePmcArgs \<Rightarrow> error + 'r) \<Rightarrow> searchParams \<Rightarrow> 'r routed" where
  "europePmcWorksRoute pf europePmcWorks sp =
     (if blankQuery pf sp then Status400
      else respond (europePmcWorks (routeQuery sp) (europePmcArgsOf pf sp)))"

text \<open>The standard clamp of a value into \<open>[lo, hi]\<close>, as the specification words it.\<close>

definition clampInto :: "int \<Rightarrow> int \<Rightarrow> int \<Rightarrow> int" where
  "clampInto lo hi n = max lo (min hi n)"

text \<open>A request with the query \<open>q\<close> and one page-size parameter.\<close>

definition requestWith :: "string \<Rightarrow> string \<Rightarrow> string \<Rightarrow> searchParams" where
  "requestWith q name v = (\<lambda>k. if k = ''q'' then Some q else if k = name then Some v else None)"

section \<open>The search service (\<^verbatim>\<open>lib/search-service.ts\<close>)\<close>

text \<open>
  \<^verbatim>\<open>a || d\<close> where \<open>a\<close> is an optional string and \<open>d\<close> a string.
\<close>

definition orElse :: "string option \<Rightarrow> string \<Rightarrow> string" where
  "orElse a d = (if truthyStr a then the a else d)"

text \<open>
  One HTTP round trip as the code sees it: \<^verbatim>\<open>fetch\<close> rejects, the response is not
  \<^verbatim>\<open>ok\<close>, reading the body throws (this includes a body the code cannot read as an
  object), or the body arrives. The body is given at the fields the code reads.
\<close>

datatype 'a fetched = FetchThrows | NotOk | BadBody | Body 'a

text \<open>\<open>f\<close> applied to each element with its index, stopping at the first throw.\<close>

fun mapIndexed :: "(nat \<Rightarrow> 'a \<Rightarrow> error + 'b) \<Rightarrow> nat \<Rightarrow> 'a list \<Rightarrow> error + 'b list" where
  "mapIndexed f i [] = Inr []"
| "mapIndexed f i (x # xs) =
     (case f i x of
        Inl e \<Rightarrow> Inl e
      | Inr y \<Rightarrow> (case mapIndexed f (Suc i) xs of Inl e \<Rightarrow> Inl e | Inr ys \<Rightarrow> Inr (y # ys)))"

text \<open>A \<^verbatim>\<open>try { body } catch { return [] }\<close> around a list-valued body.\<close>

definition catchEmpty :: "error + 'a list \<Rightarrow> error + 'a list" where
  "catchEmpty body = (case body of Inl e \<Rightarrow> Inr [] | Inr rs \<Rightarrow> Inr rs)"

subsection \<open>LangSearch\<close>

record langItem =
  li_name :: "string option"
  li_title :: "string option"
  li_url :: "string option"
  li_snippet :: "string option"
  li_content :: "string option"
  li_datePublished :: "string option"
  li_published_date :: "string option"

text \<open>
  The body of a web-search reply: \<^verbatim>\<open>data.code\<close> and the array
  \<^verbatim>\<open>data.data?.webPages?.value || data.results || []\<close>; a \<open>None\<close> element is a
  \<^verbatim>\<open>null\<close> entry, whose fields cannot be read.
\<close>

record langData =
  ld_code :: "int option"
  ld_items :: "langItem option list"

text \<open>
  \<open>hostOf\<close> is \<^verbatim>\<open>new URL(u).hostname\<close> of the platform; \<open>None\<close> is its TypeError for an
  invalid URL. \<open>nowIso\<close> is \<^verbatim>\<open>new Date().toISOString()\<close>.
\<close>

definition langSearchResult ::
    "(string \<Rightarrow> string option) \<Rightarrow> string \<Rightarrow> nat \<Rightarrow> langItem option \<Rightarrow> error + SearchResult" where
  "langSearchResult hostOf nowIso index item =
     (case item of
        None \<Rightarrow> Inl Thrown
      | Some result \<Rightarrow>
          (case (if truthyStr (li_url result) then hostOf (the (li_url result)) else Some []) of
             None \<Rightarrow> Inl Thrown
           | Some host \<Rightarrow>
               Inr \<lparr>title = orElse (orStr (li_name result) (li_title result)) ''Untitled'',
                    url = orElse (li_url result) [],
                    snippet = orElse (li_snippet result)
                      ((case li_content result of Some c \<Rightarrow> take 200 c | None \<Rightarrow> ''undefined'') @ ''...''),
                    domain = host,
                    score = 1 - real index * 0.05,
                    published_date =
                      Some (orElse (orStr (li_datePublished result) (li_published_date result)) nowIso),
                    author = Some ''Unknown''\<rparr>))"

definition codeIsError :: "int option \<Rightarrow> bool" where
  "codeIsError c = (case c of Some n \<Rightarrow> n \<noteq> 0 \<and> n \<noteq> 200 | None \<Rightarrow> False)"

definition searchWithLangSearch ::
    "(string \<Rightarrow> string option) \<Rightarrow> string \<Rightarrow> langData fetched \<Rightarrow> error + SearchResult list" where
  "searchWithLangSearch hostOf nowIso reply =
     catchEmpty
       (case reply of
          FetchThrows \<Rightarrow> Inl Thrown
        | NotOk \<Rightarrow> Inr []
        | BadBody \<Rightarrow> Inl Thrown
        | Body data \<Rightarrow>
            if codeIsError (ld_code data) then Inr []
            else mapIndexed (langSearchResult hostOf nowIso) 0 (ld_items data))"

subsection \<open>Brave\<close>

record braveItem =
  bi_title :: string
  bi_url :: string
  bi_description :: "string option"
  bi_age :: "string option"

definition braveResult ::
    "(string \<Rightarrow> string option) \<Rightarrow> string \<Rightarrow> nat \<Rightarrow> braveItem option \<Rightarrow> error + SearchResult" where
  "braveResult hostOf nowIso index item =
     (case item of
        None \<Rightarrow> Inl Thrown
      | Some result \<Rightarrow>
          (case hostOf (bi_url result) of
             None \<Rightarrow> Inl Thrown
           | Some host \<Rightarrow>
               Inr \<lparr>title = bi_title result,
                    url = bi_url result,
                    snippet = orElse (bi_description result) [],
                    domain = host,
                    score = 0.8 - real index * 0.05,
                    published_date = Some (orElse (bi_age result) nowIso),
                    author = Some ''Unknown''\<rparr>))"

text \<open>The body is the array \<^verbatim>\<open>data.web?.results || []\<close>.\<close>

definition searchWithBrave ::
    "(string \<Rightarrow> string option) \<Rightarrow> string \<Rightarrow> braveItem option list fetched \<Rightarrow> error + SearchResult list" where
  "searchWithBrave hostOf nowIso reply =
     catchEmpty
       (case reply of
          FetchThrows \<Rightarrow> Inl Thrown
        | NotOk \<Rightarrow> Inr []
        | BadBody \<Rightarrow> Inl Thrown
        | Body items \<Rightarrow> mapIndexed (braveResult hostOf nowIso) 0 items)"

subsection \<open>The keyless sources\<close>

text \<open>\<^verbatim>\<open>s.split(sep)[0]\<close> for a non-empty literal \<open>sep\<close>: the text before its first occurrence.\<close>

fun beforeSep :: "string \<Rightarrow> string \<Rightarrow> string" where
  "beforeSep sep [] = []"
| "beforeSep sep (c # cs) = (if isPrefixOf sep (c # cs) then [] else c # beforeSep sep cs)"

text \<open>\<^verbatim>\<open>s.replace(/\s+/g, ' ')\<close>: each run of white space becomes one space.\<close>

fun collapseWs :: "string \<Rightarrow> string" where
  "collapseWs [] = []"
| "collapseWs (c # cs) =
     (if isSpaceChar c then
        (case cs of
           d # ds \<Rightarrow> if isSpaceChar d then collapseWs cs else CHR '' '' # collapseWs cs
         | [] \<Rightarrow> [CHR '' ''])
      else c # collapseWs cs)"

record ddgTopic =
  dt_FirstURL :: "string option"
  dt_Text :: "string option"

record ddgData =
  dd_AbstractText :: "string option"
  dd_Heading :: "string option"
  dd_AbstractURL :: "string option"
  dd_AbstractSource :: "string option"
  dd_RelatedTopics :: "ddgTopic list option"

definition ddgAbstractResult :: "string \<Rightarrow> string \<Rightarrow> ddgData \<Rightarrow> SearchResult list" where
  "ddgAbstractResult nowIso query data =
     (if truthyStr (dd_AbstractText data) then
        [\<lparr>title = orElse (dd_Heading data) query,
          url = orElse (dd_AbstractURL data) (''https://duckduckgo.com/?q='' @ encodeURIComponent query),
          snippet = the (dd_AbstractText data),
          domain = orElse (dd_AbstractSource data) ''duckduckgo.com'',
          score = 0.9,
          published_date = Some nowIso,
          author = Some (orElse (dd_AbstractSource data) ''DuckDuckGo'')\<rparr>]
      else [])"

text \<open>
  The \<^verbatim>\<open>forEach\<close> over \<^verbatim>\<open>RelatedTopics.slice(0, 3)\<close>: a topic without url or text is
  skipped, an invalid url throws.
\<close>

definition ddgTopicResult ::
    "(string \<Rightarrow> string option) \<Rightarrow> string \<Rightarrow> string \<Rightarrow> nat \<Rightarrow> ddgTopic \<Rightarrow> error + SearchResult list" where
  "ddgTopicResult hostOf nowIso query index topic =
     (if truthyStr (dt_FirstURL topic) \<and> truthyStr (dt_Text topic) then
        (case hostOf (the (dt_FirstURL topic)) of
           None \<Rightarrow> Inl Thrown
         | Some host \<Rightarrow>
             Inr [\<lparr>title = orElse (Some (beforeSep '' - '' (the (dt_Text topic)))) query,
                   url = the (dt_FirstURL topic),
                   snippet = the (dt_Text topic),
                   domain = host,
                   score = 0.8 - real index * 0.1,
                   published_date = Some nowIso,
                   author = Some ''DuckDuckGo''\<rparr>])
      else Inr [])"

definition searchWithDuckDuckGo ::
    "(string \<Rightarrow> string option) \<Rightarrow> string \<Rightarrow> string \<Rightarrow> ddgData fetched \<Rightarrow> error + SearchResult list" where
  "searchWithDuckDuckGo hostOf nowIso query reply =
     catchEmpty
       (case reply of
          FetchThrows \<Rightarrow> Inl Thrown
        | NotOk \<Rightarrow> Inr []
        | BadBody \<Rightarrow> Inl Thrown
        | Body data \<Rightarrow>
            (case dd_RelatedTopics data of
               None \<Rightarrow> Inr (ddgAbstractResult nowIso query data)
             | Some topics \<Rightarrow>
                 (case mapIndexed (ddgTopicResult hostOf nowIso query) 0 (take 3 topics) of
                    Inl e \<Rightarrow> Inl e
                  | Inr found \<Rightarrow> Inr (ddgAbstractResult nowIso query data @ concat found))))"

record wikiData =
  wk_title :: "string option"
  wk_page :: "string option"
  wk_extract :: "string option"

definition searchWithWikipedia :: "string \<Rightarrow> string \<Rightarrow> wikiData fetched \<Rightarrow> error + SearchResult list" where
  "searchWithWikipedia nowIso query reply =
     catchEmpty
       (case reply of
          FetchThrows \<Rightarrow> Inl Thrown
        | NotOk \<Rightarrow> Inr []
        | BadBody \<Rightarrow> Inl Thrown
        | Body data \<Rightarrow>
            Inr [\<lparr>title = orElse (wk_title data) query,
                  url = orElse (wk_page data)
                    (''https://en.wikipedia.org/wiki/'' @ encodeURIComponent query),
                  snippet = orElse (wk_extract data) (''Wikipedia article about '' @ query),
                  domain = ''wikipedia.org'',
                  score = 0.95,
                  published_date = Some nowIso,
                  author = Some ''Wikipedia''\<rparr>])"

text \<open>
  An arXiv feed is given as the capture groups the regular expressions find in each
  \<^verbatim>\<open><entry>\<close>, in feed order; the loop reads at most three entries.
\<close>

record arxivMatch =
  am_title :: "string option"
  am_summary :: "string option"
  am_id :: "string option"
  am_published :: "string option"
  am_names :: "string list option"

definition arxivResult :: "string \<Rightarrow> string \<Rightarrow> nat \<Rightarrow> arxivMatch \<Rightarrow> SearchResult" where
  "arxivResult nowIso query index entry =
     \<lparr>title = (case am_title entry of Some t \<Rightarrow> trim (collapseWs t) | None \<Rightarrow> query),
      url = (case am_id entry of Some i \<Rightarrow> i | None \<Rightarrow> []),
      snippet = (case am_summary entry of Some t \<Rightarrow> trim (collapseWs t) | None \<Rightarrow> []),
      domain = ''arxiv.org'',
      score = 0.9 - real index * 0.1,
      published_date = Some (case am_published entry of Some d \<Rightarrow> d | None \<Rightarrow> nowIso),
      author = Some (case am_names entry of Some ns \<Rightarrow> joinWith '', '' ns | None \<Rightarrow> ''arXiv Authors'')\<rparr>"

definition searchWithArXiv :: "string \<Rightarrow> string \<Rightarrow> arxivMatch list fetched \<Rightarrow> error + SearchResult list" where
  "searchWithArXiv nowIso query reply =
     catchEmpty
       (case reply of
          FetchThrows \<Rightarrow> Inl Thrown
        | NotOk \<Rightarrow> Inr []
        | BadBody \<Rightarrow> Inl Thrown
        | Body entries \<Rightarrow>
            Inr (map (\<lambda>(index, entry). arxivResult nowIso query index entry)
                   (zip [0..<3] (take 3 entries))))"

record pubmedArticle =
  pa_title :: "string option"
  pa_abstract :: "string option"
  pa_pubdate :: "string option"
  pa_authors :: "string list option"

text \<open>
  One pass of the PubMed loop: the summary of \<open>id\<close> is fetched; a response that is not
  \<^verbatim>\<open>ok\<close> and a missing article are skipped, anything that throws ends the search.
\<close>

definition pubmedResult :: "string \<Rightarrow> string \<Rightarrow> string \<Rightarrow> pubmedArticle \<Rightarrow> SearchResult" where
  "pubmedResult nowIso query ident article =
     \<lparr>title = orElse (pa_title article) (''PubMed Article '' @ ident),
      url = ''https://pubmed.ncbi.nlm.nih.gov/'' @ ident @ ''/'',
      snippet = orElse (pa_abstract article) (''Research article about '' @ query),
      domain = ''pubmed.ncbi.nlm.nih.gov'',
      score = 0.85,
      published_date = Some (orElse (pa_pubdate article) nowIso),
      author = Some (orElse (map_option (joinWith '', '') (pa_authors article)) ''PubMed Authors'')\<rparr>"

fun pubmedLoop ::
    "string \<Rightarrow> string \<Rightarrow> (string \<Rightarrow> pubmedArticle option fetched) \<Rightarrow> string list
     \<Rightarrow> error + SearchResult list" where
  "pubmedLoop nowIso query summary [] = Inr []"
| "pubmedLoop nowIso query summary (ident # ids) =
     (case summary ident of
        FetchThrows \<Rightarrow> Inl Thrown
      | BadBody \<Rightarrow> Inl Thrown
      | NotOk \<Rightarrow> pubmedLoop nowIso query summary ids
      | Body None \<Rightarrow> pubmedLoop nowIso query summary ids
      | Body (Some article) \<Rightarrow>
          (case pubmedLoop nowIso query summary ids of
             Inl e \<Rightarrow> Inl e
           | Inr rs \<Rightarrow> Inr (pubmedResult nowIso query ident article # rs)))"

text \<open>The body of the id search is \<^verbatim>\<open>data.esearchresult?.idlist\<close>.\<close>

definition searchWithPubMed ::
    "string \<Rightarrow> string \<Rightarrow> string list option fetched \<Rightarrow> (string \<Rightarrow> pubmedArticle option fetched)
     \<Rightarrow> error + SearchResult list" where
  "searchWithPubMed nowIso query reply summary =
     catchEmpty
       (case reply of
          FetchThrows \<Rightarrow> Inl Thrown
        | NotOk \<Rightarrow> Inr []
        | BadBody \<Rightarrow> Inl Thrown
        | Body None \<Rightarrow> Inr []
        | Body (Some idlist) \<Rightarrow> pubmedLoop nowIso query summary (take 3 idlist))"

subsection \<open>Enrichment\<close>

text \<open>
  A fetched page is given as what the regular expressions of \<^verbatim>\<open>scrapeWebContent\<close>
  capture: the text of \<^verbatim>\<open><title>\<close> if it matches, and the text of \<^verbatim>\<open><body>\<close> with
  scripts, styles and tags removed and white space collapsed and trimmed, if
  \<^verbatim>\<open><body>\<close> matches.
\<close>

record pageMatch =
  pm_title :: "string option"
  pm_body :: "string option"

record scraped =
  sc_title :: string
  sc_content :: string
  sc_snippet :: string

definition scrapeWebContent :: "pageMatch fetched \<Rightarrow> scraped option" where
  "scrapeWebContent reply =
     (case reply of
        FetchThrows \<Rightarrow> None
      | NotOk \<Rightarrow> None
      | BadBody \<Rightarrow> None
      | Body page \<Rightarrow>
          (case pm_body page of
             None \<Rightarrow> None
           | Some bodyContent \<Rightarrow>
               Some \<lparr>sc_title = (case pm_title page of Some t \<Rightarrow> trim t | None \<Rightarrow> ''Untitled''),
                     sc_content = bodyContent,
                     sc_snippet = take 200 bodyContent
                       @ (if length bodyContent > 200 then ''...'' else [])\<rparr>))"

definition enhanceResult :: "(string \<Rightarrow> pageMatch fetched) \<Rightarrow> SearchResult \<Rightarrow> SearchResult" where
  "enhanceResult pages result =
     (case scrapeWebContent (pages (url result)) of
        Some scrapedContent \<Rightarrow>
          result\<lparr>title := orElse (Some (sc_title scrapedContent)) (title result),
                 snippet := orElse (Some (sc_snippet scrapedContent)) (snippet result),
                 score := score result + 0.1\<rparr>
      | None \<Rightarrow> result)"

definition enhanceSearchResults ::
    "(string \<Rightarrow> pageMatch fetched) \<Rightarrow> SearchResult list \<Rightarrow> error + SearchResult list" where
  "enhanceSearchResults pages results = Inr (map (enhanceResult pages) results)"

subsection \<open>Placeholders of the service\<close>

definition SearchService_getEnhancedFallbackResults :: "nat \<Rightarrow> string \<Rightarrow> SearchResult list" where
  "SearchService_getEnhancedFallbackResults currentYear query =
     [\<lparr>title = ''Comprehensive Research on '' @ query,
       url = ''https://scholar.google.com/scholar?q='' @ encodeURIComponent query,
       snippet = ''Academic research and scholarly articles about '' @ query
         @ '', including peer-reviewed papers, theses, books, conference papers, and other scholarly literature.'',
       domain = ''scholar.google.com'',
       score = 0.95,
       published_date = Some (showNat currentYear @ ''-01-01T00:00:00Z''),
       author = Some ''Academic Community''\<rparr>,
      \<lparr>title = query @ '': Latest Research and Developments'',
       url = ''https://arxiv.org/search/?query='' @ encodeURIComponent query,
       snippet = ''Recent preprints and research papers on '' @ query
         @ '' from arXiv, covering the latest developments and findings in the field.'',
       domain = ''arxiv.org'',
       score = 0.9,
       published_date = Some (showNat currentYear @ ''-02-01T00:00:00Z''),
       author = Some ''Research Community''\<rparr>,
      \<lparr>title = query @ '': Technical Documentation and Resources'',
       url = ''https://github.com/search?q='' @ encodeURIComponent query,
       snippet = ''Open source projects, documentation, and technical resources related to '' @ query
         @ '' from the developer community.'',
       domain = ''github.com'',
       score = 0.85,
       published_date = Some (showNat currentYear @ ''-03-01T00:00:00Z''),
       author = Some ''Developer Community''\<rparr>]"

subsection \<open>The world of one search\<close>

text \<open>
  A rerank request carries one document per candidate; the reply is given at the fields
  the code reads: \<^verbatim>\<open>data.code\<close>, and \<^verbatim>\<open>data.results\<close> when it is an array, each
  element with \<^verbatim>\<open>document?.id\<close> and \<^verbatim>\<open>relevance_score\<close> (\<open>None\<close> for a \<^verbatim>\<open>null\<close>
  element).
\<close>

record rerankDocument =
  doc_id :: string
  doc_text :: string
  doc_url :: string
  doc_domain :: string
  doc_originalScore :: real

record rerankItem =
  ri_documentId :: "string option"
  ri_relevance_score :: "real option"

record rerankData =
  rd_code :: "int option"
  rd_results :: "rerankItem option list option"

text \<open>
  Everything one request reads from outside: the two keys of the environment, the clock,
  the platform's URL parser and \<^verbatim>\<open>Number.parseInt\<close>, the outcome of each HTTP request,
  and whether the dynamic import of the service module succeeds.
\<close>

record world =
  langSearchApiKey :: "string option"
  braveApiKey :: "string option"
  hostOf :: "string \<Rightarrow> string option"
  nowIso :: string
  currentYear :: nat
  langSearchReply :: "langData fetched"
  braveReply :: "braveItem option list fetched"
  duckDuckGoReply :: "ddgData fetched"
  wikipediaReply :: "wikiData fetched"
  arxivReply :: "arxivMatch list fetched"
  pubmedReply :: "string list option fetched"
  pubmedSummary :: "string \<Rightarrow> pubmedArticle option fetched"
  pageReply :: "string \<Rightarrow> pageMatch fetched"
  parseInt :: "string \<Rightarrow> int option"
  rerankReply :: "string \<Rightarrow> int \<Rightarrow> rerankDocument list \<Rightarrow> rerankData fetched"
  moduleLoads :: bool

text \<open>
  \<^verbatim>\<open>Promise.allSettled\<close> over the four keyless sources: the values of the fulfilled,
  non-empty ones are appended in call order; then duplicates are removed and the list is
  sorted by descending score (a stable sort). The \<^verbatim>\<open>catch\<close> returns the placeholders.
\<close>

definition settledValues :: "(error + SearchResult list) list \<Rightarrow> SearchResult list" where
  "settledValues settled =
     concat (map (\<lambda>result. case result of Inr v \<Rightarrow> if length v > 0 then v else [] | Inl e \<Rightarrow> [])
               settled)"

definition realSearchAttempt :: "world \<Rightarrow> string \<Rightarrow> error + SearchResult list" where
  "realSearchAttempt w query =
     Inr (sort_key (\<lambda>r. - score r)
            (removeDuplicates
               (settledValues
                  [searchWithDuckDuckGo (hostOf w) (nowIso w) query (duckDuckGoReply w),
                   searchWithWikipedia (nowIso w) query (wikipediaReply w),
                   searchWithArXiv (nowIso w) query (arxivReply w),
                   searchWithPubMed (nowIso w) query (pubmedReply w) (pubmedSummary w)])))"

definition getRealSearchResults :: "world \<Rightarrow> string \<Rightarrow> error + SearchResult list" where
  "getRealSearchResults w query =
     (case realSearchAttempt w query of
        Inl e \<Rightarrow> Inr (SearchService_getEnhancedFallbackResults (currentYear w) query)
      | Inr rs \<Rightarrow> Inr rs)"

text \<open>
  \<^verbatim>\<open>search\<close>: LangSearch when its key is set, Brave when its key is set and fewer than
  five results are there, the keyless sources when nothing is there, enrichment, and the
  cut to \<^verbatim>\<open>numResults\<close>. A rejected provider call is caught and ignored.
\<close>

definition search :: "world \<Rightarrow> string \<Rightarrow> int \<Rightarrow> error + SearchResult list" where
  "search w query numResults =
     (let results1 =
            (if truthyStr (langSearchApiKey w) then
               (case searchWithLangSearch (hostOf w) (nowIso w) (langSearchReply w) of
                  Inr langSearchResults \<Rightarrow> langSearchResults
                | Inl e \<Rightarrow> [])
             else []);
          results2 =
            (if truthyStr (braveApiKey w) \<and> length results1 < 5 then
               (case searchWithBrave (hostOf w) (nowIso w) (braveReply w) of
                  Inr braveResults \<Rightarrow> results1 @ braveResults
                | Inl e \<Rightarrow> results1)
             else results1)
      in case (if length results2 > 0 then Inr results2 else getRealSearchResults w query) of
           Inl e \<Rightarrow> Inl e
         | Inr finalResults \<Rightarrow>
             (case enhanceSearchResults (pageReply w) finalResults of
                Inl e \<Rightarrow> Inl e
              | Inr enhancedResults \<Rightarrow> Inr (slice0 enhancedResults numResults)))"

subsection \<open>Reranking\<close>

definition rerankDocuments :: "SearchResult list \<Rightarrow> rerankDocument list" where
  "rerankDocuments results =
     map (\<lambda>(index, result).
            \<lparr>doc_id = showNat index,
             doc_text = title result @ '' '' @ snippet result,
             doc_url = url result,
             doc_domain = domain result,
             doc_originalScore = score result\<rparr>)
       (zip [0..<length results] results)"

text \<open>\<^verbatim>\<open>results[originalIndex] || results[0]\<close> on a non-empty array.\<close>

definition originalAt :: "SearchResult list \<Rightarrow> int option \<Rightarrow> SearchResult" where
  "originalAt results originalIndex =
     (case originalIndex of
        Some i \<Rightarrow> if 0 \<le> i \<and> nat i < length results then results ! nat i else hd results
      | None \<Rightarrow> hd results)"

definition rerankedResult ::
    "(string \<Rightarrow> int option) \<Rightarrow> SearchResult list \<Rightarrow> nat \<Rightarrow> rerankItem option \<Rightarrow> error + SearchResult" where
  "rerankedResult parse results index item =
     (case item of
        None \<Rightarrow> Inl Thrown
      | Some result \<Rightarrow>
          Inr ((originalAt results (parse (orElse (ri_documentId result) ''0'')))
                 \<lparr>score := (case ri_relevance_score result of
                               Some v \<Rightarrow> if v \<noteq> 0 then v else 1 - real index * 0.1
                             | None \<Rightarrow> 1 - real index * 0.1)\<rparr>))"

definition rerankAttempt :: "world \<Rightarrow> string \<Rightarrow> SearchResult list \<Rightarrow> int \<Rightarrow> error + SearchResult list" where
  "rerankAttempt w query results topN =
     (case rerankReply w query topN (rerankDocuments results) of
        FetchThrows \<Rightarrow> Inl Thrown
      | NotOk \<Rightarrow> Inr (slice0 results topN)
      | BadBody \<Rightarrow> Inl Thrown
      | Body data \<Rightarrow>
          if codeIsError (rd_code data) then Inr (slice0 results topN)
          else (case rd_results data of
                  None \<Rightarrow> Inr (slice0 results topN)
                | Some items \<Rightarrow> mapIndexed (rerankedResult (parseInt w) results) 0 items))"

definition rerankResults :: "world \<Rightarrow> string \<Rightarrow> SearchResult list \<Rightarrow> int \<Rightarrow> error + SearchResult list" where
  "rerankResults w query results topN =
     (if \<not> truthyStr (langSearchApiKey w) \<or> length results = 0 then Inr (slice0 results topN)
      else (case rerankAttempt w query results topN of
              Inl e \<Rightarrow> Inr (slice0 results topN)
            | Inr reranked \<Rightarrow> Inr reranked))"

section \<open>The research route (\<^verbatim>\<open>POST /research\<close>)\<close>

subsection \<open>Local fallback producers\<close>

definition getEnhancedFallbackResults :: "nat \<Rightarrow> string \<Rightarrow> SearchResult list" where
  "getEnhancedFallbackResults year query =
     [\<lparr>title = ''Comprehensive Analysis of '' @ query @ '': Current Research and Applications'',
       url = ''https://scholar.google.com/scholar?q='' @ encodeURIComponent query,
       snippet = ''This comprehensive analysis examines the current state of '' @ query
         @ '', including recent developments, methodologies, and practical applications. The research covers theoretical foundations, empirical studies, and emerging trends in the field.'',
       domain = ''scholar.google.com'',
       score = 0.95,
       published_date = Some (showNat year @ ''-01-15T00:00:00Z''),
       author = Some ''Academic Research Team''\<rparr>,
      \<lparr>title = query @ '': Systematic Review and Meta-Analysis'',
       url = ''https://pubmed.ncbi.nlm.nih.gov/?term='' @ encodeURIComponent query,
       snippet = ''A systematic review examining '' @ query
         @ '' through multiple research studies and meta-analytical approaches. This study synthesizes findings from peer-reviewed literature to provide evidence-based insights.'',
       domain = ''pubmed.ncbi.nlm.nih.gov'',
       score = 0.92,
       published_date = Some (showNat year @ ''-02-20T00:00:00Z''),
       author = Some ''Research Consortium''\<rparr>,
      \<lparr>title = ''Recent Advances in '' @ query @ '': A Technical Perspective'',
       url = ''https://arxiv.org/search/?query='' @ encodeURIComponent query,
       snippet = ''This technical paper discusses recent advances in '' @ query
         @ '', focusing on innovative methodologies, computational approaches, and future research directions. The work presents both theoretical contributions and practical implementations.'',
       domain = ''arxiv.org'',
       score = 0.88,
       published_date = Some (showNat year @ ''-03-10T00:00:00Z''),
       author = Some ''Dr. Research Specialist''\<rparr>]"

text \<open>The list with its indices, as \<^verbatim>\<open>map((x, i) => ...)\<close> sees it.\<close>

definition indexed :: "'a list \<Rightarrow> (nat \<times> 'a) list" where
  "indexed xs = zip [0..<length xs] xs"

definition newline :: string where
  "newline = [CHR 0x0A]"

definition dquote :: string where
  "dquote = [CHR 0x22]"

definition generateFallbackSummary :: "string \<Rightarrow> SearchResult list \<Rightarrow> string" where
  "generateFallbackSummary query searchResults =
     ''# Research Summary: '' @ query @ newline @ newline
     @ ''Based on the available sources, here is a comprehensive overview of '' @ query @ '':''
     @ newline @ newline
     @ ''## Introduction'' @ newline
     @ query @ '' is an important topic that has gained significant attention in recent research and applications.''
     @ newline @ newline
     @ ''## Key Findings'' @ newline
     @ joinWith newline
         (map (\<lambda>(i, source). ''- **['' @ showNat (i + 1) @ '']** '' @ title source @ '': '' @ snippet source)
            (indexed searchResults))
     @ newline @ newline
     @ ''## Conclusion'' @ newline
     @ ''The research on '' @ query
     @ '' continues to evolve, with new developments and applications emerging regularly. Further investigation is recommended to stay current with the latest findings.''
     @ newline @ newline
     @ ''## Sources'' @ newline
     @ joinWith newline
         (map (\<lambda>(i, source). ''['' @ showNat (i + 1) @ ''] '' @ title source @ '' - '' @ url source)
            (indexed searchResults))"

definition determineSourceType :: "string \<Rightarrow> string" where
  "determineSourceType d =
     (if strIncludes d ''edu'' \<or> strIncludes d ''arxiv'' \<or> strIncludes d ''scholar'' then ''academic''
      else if strIncludes d ''gov'' \<or> strIncludes d ''org'' then ''institutional''
      else if strIncludes d ''news'' \<or> strIncludes d ''reuters'' \<or> strIncludes d ''bbc'' then ''news''
      else ''web'')"

definition showInt :: "int \<Rightarrow> string" where
  "showInt i = (if i < 0 then CHR ''-'' # showNat (nat (- i)) else showNat (nat i))"

text \<open>
  \<open>dateYear\<close> is \<^verbatim>\<open>new Date(s).getFullYear()\<close> of the platform, \<open>None\<close> for \<^verbatim>\<open>NaN\<close>;
  \<open>year\<close> is the current year.
\<close>

definition extractYear :: "nat \<Rightarrow> (string \<Rightarrow> int option) \<Rightarrow> string option \<Rightarrow> string" where
  "extractYear year dateYear publishedDate =
     (if \<not> truthyStr publishedDate then showNat year
      else (case dateYear (the publishedDate) of None \<Rightarrow> showNat year | Some y \<Rightarrow> showInt y))"

text \<open>
  JSON values as \<^verbatim>\<open>JSON.parse\<close> returns them; a value that may be \<^verbatim>\<open>undefined\<close> is an
  option. A citation object has the six keys the code writes, each holding a value.
\<close>

datatype json = JNull | JBool bool | JNum real | JStr string | JArr "json list" | JObj "(string \<times> json) list"

record citation =
  cite_id :: json
  cite_formatted :: json
  cite_inText :: json
  cite_type :: json
  cite_year :: json
  cite_authors :: json

definition generateFallbackCitation ::
    "nat \<Rightarrow> (string \<Rightarrow> int option) \<Rightarrow> string \<Rightarrow> nat \<Rightarrow> SearchResult \<Rightarrow> citation" where
  "generateFallbackCitation thisYear dateYear style i source =
     (let year = extractYear thisYear dateYear (published_date source);
          author = orElse (author source) ''Unknown'';
          first = beforeSep '' '' author;
          formatted =
            (if style = ''apa'' then
               author @ '' ('' @ year @ ''). '' @ title source @ ''. Retrieved from '' @ url source
             else if style = ''mla'' then
               author @ ''. '' @ dquote @ title source @ ''.'' @ dquote @ '' '' @ domain source
                 @ '', '' @ year @ ''. Web. <'' @ url source @ ''>.''
             else if style = ''ieee'' then
               ''['' @ showNat (i + 1) @ ''] '' @ author @ '', '' @ dquote @ title source @ '','' @ dquote
                 @ '' '' @ domain source @ '', '' @ year @ ''. [Online]. Available: '' @ url source
             else author @ '' ('' @ year @ ''). '' @ title source @ ''. '' @ url source);
          inText =
            (if style = ''apa'' then ''('' @ first @ '', '' @ year @ '')''
             else if style = ''mla'' then ''('' @ first @ '')''
             else if style = ''ieee'' then ''['' @ showNat (i + 1) @ '']''
             else ''('' @ first @ '', '' @ year @ '')'')
      in \<lparr>cite_id = JStr (''cite-'' @ showNat (i + 1)),
          cite_formatted = JStr formatted,
          cite_inText = JStr inText,
          cite_type = JStr (determineSourceType (domain source)),
          cite_year = JStr year,
          cite_authors = JArr [JStr author]\<rparr>)"

definition generateFallbackCitations ::
    "nat \<Rightarrow> (string \<Rightarrow> int option) \<Rightarrow> SearchResult list \<Rightarrow> string \<Rightarrow> citation list" where
  "generateFallbackCitations thisYear dateYear sources style =
     map (\<lambda>(i, source). generateFallbackCitation thisYear dateYear style i source) (indexed sources)"

definition extractInsightsFromSummary :: "string \<Rightarrow> string list" where
  "extractInsightsFromSummary summary =
     map trim (take 6 (filter (\<lambda>s. length (trim s) > 20)
                         (splitRuns (\<lambda>c. c \<in> set ''.!?'') [] summary)))"

definition generateFallbackRelatedTopics :: "string \<Rightarrow> string list" where
  "generateFallbackRelatedTopics query =
     [''Advanced '' @ query @ '' techniques'',
      ''Emerging trends in '' @ query,
      ''Applications of '' @ query,
      ''Future directions in '' @ query,
      ''Methodologies for '' @ query,
      ''Comparative studies on '' @ query,
      ''Theoretical foundations of '' @ query,
      ''Case studies in '' @ query]"

subsection \<open>Generation stages\<close>

datatype aiProvider = Groq | Gemini

text \<open>
  \<^verbatim>\<open>text.match(/\[[\s\S]*\]/)\<close>: the match starts at the first \<^verbatim>\<open>[\<close> and, the star
  being greedy, ends at the last \<^verbatim>\<open>]\<close> after it; there is no match when no \<^verbatim>\<open>]\<close>
  follows the first \<^verbatim>\<open>[\<close>.
\<close>

definition matchJsonArray :: "string \<Rightarrow> string option" where
  "matchJsonArray text =
     (case dropWhile (\<lambda>c. c \<noteq> CHR ''['') text of
        [] \<Rightarrow> None
      | bracket # rest \<Rightarrow>
          (case dropWhile (\<lambda>c. c \<noteq> CHR '']'') (rev rest) of
             [] \<Rightarrow> None
           | closing \<Rightarrow> Some (bracket # rev closing)))"

text \<open>
  The first balanced bracketed substring, as the specification words the extraction:
  from a \<^verbatim>\<open>[\<close>, the text up to the \<^verbatim>\<open>]\<close> that closes it; the first \<^verbatim>\<open>[\<close> that is
  closed wins.
\<close>

fun closeBracket :: "nat \<Rightarrow> string \<Rightarrow> string option" where
  "closeBracket depth [] = None"
| "closeBracket depth (c # cs) =
     (if c = CHR '']'' then
        (if depth = 0 then Some [c] else map_option ((#) c) (closeBracket (depth - 1) cs))
      else if c = CHR ''['' then map_option ((#) c) (closeBracket (depth + 1) cs)
      else map_option ((#) c) (closeBracket depth cs))"

fun firstBalanced :: "string \<Rightarrow> string option" where
  "firstBalanced [] = None"
| "firstBalanced (c # cs) =
     (if c = CHR ''['' then
        (case closeBracket 0 cs of Some m \<Rightarrow> Some (c # m) | None \<Rightarrow> firstBalanced cs)
      else firstBalanced cs)"

text \<open>JavaScript truthiness of a possibly undefined JSON value, and \<^verbatim>\<open>||\<close>.\<close>

definition truthy :: "json option \<Rightarrow> bool" where
  "truthy v =
     (case v of
        None \<Rightarrow> False
      | Some JNull \<Rightarrow> False
      | Some (JBool b) \<Rightarrow> b
      | Some (JNum n) \<Rightarrow> n \<noteq> 0
      | Some (JStr s) \<Rightarrow> s \<noteq> []
      | Some (JArr xs) \<Rightarrow> True
      | Some (JObj kvs) \<Rightarrow> True)"

definition orJ :: "json option \<Rightarrow> json option \<Rightarrow> json option" where
  "orJ a b = (if truthy a then a else b)"

definition orJson :: "json option \<Rightarrow> json \<Rightarrow> json" where
  "orJson a d = (if truthy a then the a else d)"

text \<open>
  Reading a named member of a parsed value that is not \<^verbatim>\<open>null\<close>: an object yields its
  member, any other value has none of the members the code asks for.
\<close>

definition member :: "json \<Rightarrow> string \<Rightarrow> json option" where
  "member v k = (case v of JObj kvs \<Rightarrow> map_of kvs k | _ \<Rightarrow> None)"

definition nthOpt :: "'a list \<Rightarrow> nat \<Rightarrow> 'a option" where
  "nthOpt xs i = (if i < length xs then Some (xs ! i) else None)"

definition citationFrom ::
    "nat \<Rightarrow> (string \<Rightarrow> int option) \<Rightarrow> SearchResult list \<Rightarrow> nat \<Rightarrow> json \<Rightarrow> error + citation" where
  "citationFrom thisYear dateYear searchResults index c =
     (if c = JNull then Inl Thrown
      else Inr
        \<lparr>cite_id = orJson (member c ''id'') (JStr (''cite-'' @ showNat (index + 1))),
         cite_formatted = orJson (orJ (member c ''formatted'') (member c ''citation'')) (JStr []),
         cite_inText = orJson (orJ (member c ''inText'') (member c ''in_text''))
           (JStr (''('' @ showNat (index + 1) @ '')'')),
         cite_type = orJson (member c ''type'')
           (JStr (determineSourceType (orElse (map_option domain (nthOpt searchResults index)) []))),
         cite_year = orJson (member c ''year'')
           (JStr (extractYear thisYear dateYear
                    (case nthOpt searchResults index of Some r \<Rightarrow> published_date r | None \<Rightarrow> None))),
         cite_authors = orJson (member c ''authors'')
           (JArr [JStr (orElse (case nthOpt searchResults index of Some r \<Rightarrow> author r | None \<Rightarrow> None)
                          ''Unknown'')])\<rparr>)"

text \<open>
  What a stage reads from outside: the clock, the platform's date and JSON parsers
  (\<open>None\<close> where \<^verbatim>\<open>JSON.parse\<close> throws), and the outcome of \<^verbatim>\<open>generateText\<close> with the
  model of each provider.
\<close>

record stageWorld =
  thisYear :: nat
  dateYear :: "string \<Rightarrow> int option"
  jsonParse :: "string \<Rightarrow> json option"
  generateText :: "aiProvider \<Rightarrow> error + string"

definition generateSummary ::
    "stageWorld \<Rightarrow> string \<Rightarrow> SearchResult list \<Rightarrow> aiProvider \<Rightarrow> error + string" where
  "generateSummary sw query searchResults aiProvider =
     (case generateText sw aiProvider of
        Inl e \<Rightarrow> Inr (generateFallbackSummary query searchResults)
      | Inr text \<Rightarrow> Inr text)"

definition citationsAttempt ::
    "stageWorld \<Rightarrow> SearchResult list \<Rightarrow> string \<Rightarrow> aiProvider \<Rightarrow> error + citation list" where
  "citationsAttempt sw searchResults citationStyle aiProvider =
     (case generateText sw aiProvider of
        Inl e \<Rightarrow> Inl e
      | Inr text \<Rightarrow>
          (case matchJsonArray text of
             Some jsonMatch \<Rightarrow>
               (case jsonParse sw jsonMatch of
                  Some (JArr citations) \<Rightarrow>
                    mapIndexed (citationFrom (thisYear sw) (dateYear sw) searchResults) 0 citations
                | _ \<Rightarrow> Inl Thrown)
           | None \<Rightarrow>
               Inr (generateFallbackCitations (thisYear sw) (dateYear sw) searchResults citationStyle)))"

definition generateCitations ::
    "stageWorld \<Rightarrow> SearchResult list \<Rightarrow> string \<Rightarrow> aiProvider \<Rightarrow> error + citation list" where
  "generateCitations sw searchResults citationStyle aiProvider =
     (case citationsAttempt sw searchResults citationStyle aiProvider of
        Inl e \<Rightarrow>
          Inr (generateFallbackCitations (thisYear sw) (dateYear sw) searchResults citationStyle)
      | Inr citations \<Rightarrow> Inr citations)"

text \<open>
  \<^verbatim>\<open>xs.filter(x => typeof x === 'string' && x.trim().length > n)\<close> on parsed values.
\<close>

definition longStrings :: "nat \<Rightarrow> json list \<Rightarrow> string list" where
  "longStrings n xs =
     concat (map (\<lambda>x. case x of JStr t \<Rightarrow> if length (trim t) > n then [t] else [] | _ \<Rightarrow> []) xs)"

definition stringsAttempt :: "stageWorld \<Rightarrow> nat \<Rightarrow> string list \<Rightarrow> aiProvider \<Rightarrow> error + string list" where
  "stringsAttempt sw n fallback aiProvider =
     (case generateText sw aiProvider of
        Inl e \<Rightarrow> Inl e
      | Inr text \<Rightarrow>
          (case matchJsonArray text of
             Some jsonMatch \<Rightarrow>
               (case jsonParse sw jsonMatch of
                  Some (JArr items) \<Rightarrow> Inr (longStrings n items)
                | _ \<Rightarrow> Inl Thrown)
           | None \<Rightarrow> Inr fallback))"

definition extractInsights :: "stageWorld \<Rightarrow> string \<Rightarrow> aiProvider \<Rightarrow> error + string list" where
  "extractInsights sw summary aiProvider =
     (case stringsAttempt sw 10 (extractInsightsFromSummary summary) aiProvider of
        Inl e \<Rightarrow> Inr (extractInsightsFromSummary summary)
      | Inr insights \<Rightarrow> Inr insights)"

definition generateRelatedTopics :: "stageWorld \<Rightarrow> string \<Rightarrow> string \<Rightarrow> aiProvider \<Rightarrow> error + string list" where
  "generateRelatedTopics sw query summary aiProvider =
     (case stringsAttempt sw 5 (generateFallbackRelatedTopics query) aiProvider of
        Inl e \<Rightarrow> Inr (generateFallbackRelatedTopics query)
      | Inr topics \<Rightarrow> Inr topics)"

subsection \<open>Retry wrappers\<close>

text \<open>
  The loop that each of the five wrappers writes out,
  \<^verbatim>\<open>for (let attempt = 1; attempt <= maxRetries; attempt++)\<close>, with the call of the stage
  function in its \<^verbatim>\<open>try\<close>: \<open>stage n\<close> is the outcome of the \<open>n\<close>-th awaited call. The
  result carries the value returned, the number of calls made and the delays slept, in
  milliseconds.
\<close>

function retryLoop ::
    "nat \<Rightarrow> nat \<Rightarrow> (nat \<Rightarrow> error + 'a) \<Rightarrow> 'a \<Rightarrow> nat \<Rightarrow> nat list \<Rightarrow> 'a \<times> nat \<times> nat list" where
  "retryLoop maxRetries attempt stage fallback calls slept =
     (if attempt \<le> maxRetries then
        (case stage attempt of
           Inr v \<Rightarrow> (v, calls + 1, slept)
         | Inl e \<Rightarrow>
             if attempt = maxRetries then (fallback, calls + 1, slept)
             else retryLoop maxRetries (attempt + 1) stage fallback (calls + 1)
                    (slept @ [2 ^ attempt * 1000]))
      else (fallback, calls, slept))"
  by pat_completeness auto
termination
  by (relation "measure (\<lambda>(maxRetries, attempt, stage, fallback, calls, slept). maxRetries + 1 - attempt)") auto

declare retryLoop.simps [simp del]

text \<open>
  The retry policy as the specification words it: at most three attempts, a wait of
  \<open>2 ^ attempt\<close> seconds after a failed attempt that is not the last, the value of the
  first attempt that succeeds, and the fallback after the third failure.
\<close>

definition retryPolicy :: "(nat \<Rightarrow> error + 'a) \<Rightarrow> 'a \<Rightarrow> 'a \<times> nat \<times> nat list" where
  "retryPolicy stage fallback =
     (case stage 1 of
        Inr v \<Rightarrow> (v, 1, [])
      | Inl e1 \<Rightarrow>
          (case stage 2 of
             Inr v \<Rightarrow> (v, 2, [2 ^ 1 * 1000])
           | Inl e2 \<Rightarrow>
               (case stage 3 of
                  Inr v \<Rightarrow> (v, 3, [2 ^ 1 * 1000, 2 ^ 2 * 1000])
                | Inl e3 \<Rightarrow> (fallback, 3, [2 ^ 1 * 1000, 2 ^ 2 * 1000]))))"

subsection \<open>The search stage\<close>

text \<open>
  \<^verbatim>\<open>performWebSearch\<close>: the service is imported and asked for 15 results; they are
  reranked to 10 when the LangSearch key is set and there is a result, else cut to 10;
  anything thrown gives the placeholders of the route.
\<close>

definition webSearchAttempt :: "world \<Rightarrow> string \<Rightarrow> error + SearchResult list" where
  "webSearchAttempt w query =
     (if \<not> moduleLoads w then Inl Thrown
      else (case search w query 15 of
              Inl e \<Rightarrow> Inl e
            | Inr initialResults \<Rightarrow>
                if truthyStr (langSearchApiKey w) \<and> length initialResults > 0 then
                  (case rerankResults w query initialResults 10 of
                     Inr rerankedResults \<Rightarrow> Inr rerankedResults
                   | Inl e \<Rightarrow> Inr (slice0 initialResults 10))
                else Inr (slice0 initialResults 10)))"

definition performWebSearch :: "world \<Rightarrow> string \<Rightarrow> error + SearchResult list" where
  "performWebSearch w query =
     (case webSearchAttempt w query of
        Inl e \<Rightarrow> Inr (getEnhancedFallbackResults (currentYear w) query)
      | Inr rs \<Rightarrow> Inr rs)"

subsection \<open>The five wrappers\<close>

text \<open>
  Each wrapper runs the loop around its own stage function. The world may differ from
  one attempt to the next: \<open>worlds n\<close> is what the \<open>n\<close>-th call of the stage function
  finds. \<open>year\<close> and \<open>parseDate\<close> are the clock and the date parser when the fallback
  producer runs.
\<close>

definition performWebSearchWithRetry ::
    "(nat \<Rightarrow> world) \<Rightarrow> nat \<Rightarrow> string \<Rightarrow> nat \<Rightarrow> SearchResult list \<times> nat \<times> nat list" where
  "performWebSearchWithRetry worlds year query maxRetries =
     retryLoop maxRetries 1 (\<lambda>attempt. performWebSearch (worlds attempt) query)
       (getEnhancedFallbackResults year query) 0 []"

definition generateSummaryWithRetry ::
    "(nat \<Rightarrow> stageWorld) \<Rightarrow> string \<Rightarrow> SearchResult list \<Rightarrow> aiProvider \<Rightarrow> nat
     \<Rightarrow> string \<times> nat \<times> nat list" where
  "generateSummaryWithRetry worlds query searchResults aiProvider maxRetries =
     retryLoop maxRetries 1 (\<lambda>attempt. generateSummary (worlds attempt) query searchResults aiProvider)
       (generateFallbackSummary query searchResults) 0 []"

definition generateCitationsWithRetry ::
    "(nat \<Rightarrow> stageWorld) \<Rightarrow> nat \<Rightarrow> (string \<Rightarrow> int option) \<Rightarrow> SearchResult list \<Rightarrow> string
     \<Rightarrow> aiProvider \<Rightarrow> nat \<Rightarrow> citation list \<times> nat \<times> nat list" where
  "generateCitationsWithRetry worlds year parseDate searchResults citationStyle aiProvider maxRetries =
     retryLoop maxRetries 1
       (\<lambda>attempt. generateCitations (worlds attempt) searchResults citationStyle aiProvider)
       (generateFallbackCitations year parseDate searchResults citationStyle) 0 []"

definition extractInsightsWithRetry ::
    "(nat \<Rightarrow> stageWorld) \<Rightarrow> string \<Rightarrow> aiProvider \<Rightarrow> nat \<Rightarrow> string list \<times> nat \<times> nat list" where
  "extractInsightsWithRetry worlds summary aiProvider maxRetries =
     retryLoop maxRetries 1 (\<lambda>attempt. extractInsights (worlds attempt) summary aiProvider)
       (extractInsightsFromSummary summary) 0 []"

definition generateRelatedTopicsWithRetry ::
    "(nat \<Rightarrow> stageWorld) \<Rightarrow> string \<Rightarrow> string \<Rightarrow> aiProvider \<Rightarrow> nat
     \<Rightarrow> string list \<times> nat \<times> nat list" where
  "generateRelatedTopicsWithRetry worlds query summary aiProvider maxRetries =
     retryLoop maxRetries 1 (\<lambda>attempt. generateRelatedTopics (worlds attempt) query summary aiProvider)
       (generateFallbackRelatedTopics query) 0 []"

section \<open>Provider normalizers (\<^verbatim>\<open>lib/normalizers.ts\<close>)\<close>

text \<open>
  The normalizers are modelled at the fields of \<^verbatim>\<open>Paper\<close> that identify a record: id,
  doi, title, abstract, url and source. The other fields are computed from the payload
  independently of these. A payload field that may be absent is an option; \<open>None\<close> in
  the output is \<^verbatim>\<open>undefined\<close>.
\<close>

datatype providerId = openalex | crossref | arxiv | europepmc

record Paper =
  paper_id :: "string option"
  paper_doi :: "string option"
  paper_title :: "string option"
  paper_abstract :: "string option"
  paper_url :: "string option"
  paper_source :: providerId

text \<open>\<^verbatim>\<open>s.replace(/^https?:\/\/doi\.org\//, '')\<close>.\<close>

definition stripDoiOrg :: "string \<Rightarrow> string" where
  "stripDoiOrg s =
     (if isPrefixOf ''https://doi.org/'' s then drop (length ''https://doi.org/'') s
      else if isPrefixOf ''http://doi.org/'' s then drop (length ''http://doi.org/'') s
      else s)"

record openAlexWork =
  oa_id :: string
  oa_doi :: "string option"
  oa_display_name :: "string option"
  oa_title :: "string option"
  oa_abstract :: "string option"
  oa_abstract_inverted_index :: "(string \<times> int list) list option"
  oa_landing_page_url :: "string option"
  oa_oa_url :: "string option"

definition normalizeOpenAlexWork :: "openAlexWork \<Rightarrow> Paper" where
  "normalizeOpenAlexWork work =
     (let doi = orUndefined (map_option stripDoiOrg (oa_doi work));
          landing = orStr (orStr (oa_landing_page_url work) (oa_oa_url work))
                      (case doi of Some d \<Rightarrow> Some (''https://doi.org/'' @ d) | None \<Rightarrow> None);
          abstract = orStr (oa_abstract work)
                       (reconstructAbstractFromInvertedIndex (oa_abstract_inverted_index work))
      in \<lparr>paper_id = Some (oa_id work),
          paper_doi = doi,
          paper_title = Some (orElse (orStr (oa_display_name work) (oa_title work)) ''Untitled''),
          paper_abstract = abstract,
          paper_url = landing,
          paper_source = openalex\<rparr>)"

text \<open>A Crossref title is an array of strings or a single optional string.\<close>

datatype crossrefTitle = TitleArray "string list" | TitleValue "string option"

record crossrefItem =
  cr_DOI :: "string option"
  cr_title :: crossrefTitle
  cr_URL :: "string option"

definition normalizeCrossrefItem :: "crossrefItem \<Rightarrow> Paper" where
  "normalizeCrossrefItem item =
     (let doi = orUndefined (cr_DOI item);
          title = (case cr_title item of
                     TitleArray ts \<Rightarrow> nthOpt ts 0
                   | TitleValue t \<Rightarrow> Some (orElse t ''Untitled''));
          url = orStr (cr_URL item)
                  (case doi of Some d \<Rightarrow> Some (''https://doi.org/'' @ d) | None \<Rightarrow> None)
      in \<lparr>paper_id = (case doi of Some d \<Rightarrow> Some (''https://doi.org/'' @ d) | None \<Rightarrow> orStr url title),
          paper_doi = doi,
          paper_title = title,
          paper_abstract = None,
          paper_url = url,
          paper_source = crossref\<rparr>)"

record arxivEntry =
  ax_id :: string
  ax_title :: string
  ax_summary :: "string option"

definition normalizeArxivEntry :: "arxivEntry \<Rightarrow> Paper" where
  "normalizeArxivEntry entry =
     \<lparr>paper_id = Some (ax_id entry),
      paper_doi = None,
      paper_title = Some (orElse (Some (ax_title entry)) ''Untitled''),
      paper_abstract = ax_summary entry,
      paper_url = Some (ax_id entry),
      paper_source = arxiv\<rparr>"

record europePmcItem =
  ep_doi :: "string option"
  ep_id :: "string option"
  ep_source :: "string option"
  ep_title :: "string option"
  ep_abstractText :: "string option"
  ep_pageInfo :: "string option"

definition normalizeEuropePmcItem :: "europePmcItem \<Rightarrow> Paper" where
  "normalizeEuropePmcItem item =
     (let doi = orUndefined (ep_doi item);
          landing = (if truthyStr (ep_id item) \<and> truthyStr (ep_source item)
                     then Some (''https://europepmc.org/abstract/'' @ the (ep_source item) @ ''/''
                                @ the (ep_id item))
                     else orUndefined (ep_pageInfo item))
      in \<lparr>paper_id =
            (case doi of
               Some d \<Rightarrow> Some (''https://doi.org/'' @ d)
             | None \<Rightarrow>
                 if truthyStr (ep_id item) then Some (''europepmc:'' @ the (ep_id item))
                 else Some (orElse (ep_title item) ''unknown'')),
          paper_doi = doi,
          paper_title = Some (orElse (ep_title item) ''Untitled''),
          paper_abstract = orUndefined (ep_abstractText item),
          paper_url = landing,
          paper_source = europepmc\<rparr>)"

text \<open>An OpenAlex work and a Crossref item for the same publication.\<close>

definition sharedDoiWork :: openAlexWork where
  "sharedDoiWork =
     \<lparr>oa_id = ''https://openalex.org/W2741809807'',
      oa_doi = Some ''https://doi.org/10.7717/peerj.4375'',
      oa_display_name = Some ''The state of OA'',
      oa_title = Some ''The state of OA'',
      oa_abstract = None,
      oa_abstract_inverted_index = Some [(''A'', [2]), (''quick'', [0]), (''brown'', [1])],
      oa_landing_page_url = None,
      oa_oa_url = None\<rparr>"

definition sharedDoiItem :: crossrefItem where
  "sharedDoiItem =
     \<lparr>cr_DOI = Some ''10.7717/peerj.4375'',
      cr_title = TitleArray [''The state of OA''],
      cr_URL = Some ''http://dx.doi.org/10.7717/peerj.4375''\<rparr>"

definition sharedDoiPmc :: europePmcItem where
  "sharedDoiPmc =
     \<lparr>ep_doi = Some ''10.7717/peerj.4375'',
      ep_id = Some ''29456894'',
      ep_source = Some ''MED'',
      ep_title = Some ''The state of OA'',
      ep_abstractText = None,
      ep_pageInfo = None\<rparr>"

section \<open>Example worlds\<close>

text \<open>No key is configured and every request fails.\<close>

definition offlineWorld :: world where
  "offlineWorld =
     \<lparr>langSearchApiKey = None, braveApiKey = None,
      hostOf = (\<lambda>u. None), nowIso = ''2025-06-01T00:00:00.000Z'', currentYear = 2025,
      langSearchReply = FetchThrows, braveReply = FetchThrows,
      duckDuckGoReply = FetchThrows, wikipediaReply = FetchThrows,
      arxivReply = FetchThrows, pubmedReply = FetchThrows,
      pubmedSummary = (\<lambda>ident. FetchThrows), pageReply = (\<lambda>u. FetchThrows),
      parseInt = parseInt10, rerankReply = (\<lambda>query topN documents. FetchThrows),
      moduleLoads = True\<rparr>"

text \<open>Only Wikipedia answers, with a page whose \<^verbatim>\<open><title>\<close> and \<^verbatim>\<open><body>\<close> can be read.\<close>

definition wikipediaWorld :: world where
  "wikipediaWorld =
     offlineWorld
       \<lparr>hostOf := (\<lambda>u. if u = ''https://en.wikipedia.org/wiki/Graphene''
                        then Some ''en.wikipedia.org'' else None),
        wikipediaReply :=
          Body \<lparr>wk_title = Some ''Graphene'',
                wk_page = Some ''https://en.wikipedia.org/wiki/Graphene'',
                wk_extract = Some ''Graphene is an allotrope of carbon.''\<rparr>,
        pageReply := (\<lambda>u. if u = ''https://en.wikipedia.org/wiki/Graphene''
                           then Body \<lparr>pm_title = Some ''Graphene - Wikipedia'',
                                       pm_body = Some ''Graphene is an allotrope of carbon''\<rparr>
                           else FetchThrows)\<rparr>"

text \<open>The LangSearch key is set; the reranker answers with two scored documents.\<close>

definition candidateA :: SearchResult where
  "candidateA = \<lparr>title = ''Alpha'', url = ''https://a.org/1'', snippet = ''first'',
     domain = ''a.org'', score = 1, published_date = None, author = Some ''Unknown''\<rparr>"

definition candidateB :: SearchResult where
  "candidateB = \<lparr>title = ''Beta'', url = ''https://b.org/2'', snippet = ''second'',
     domain = ''b.org'', score = 0.95, published_date = None, author = Some ''Unknown''\<rparr>"

definition rerankWorld :: world where
  "rerankWorld =
     offlineWorld
       \<lparr>langSearchApiKey := Some ''key'',
        rerankReply := (\<lambda>query topN documents.
          Body \<lparr>rd_code = Some 200,
                rd_results = Some [Some \<lparr>ri_documentId = Some ''1'', ri_relevance_score = Some 0.9\<rparr>,
                                   Some \<lparr>ri_documentId = Some ''7'', ri_relevance_score = None\<rparr>]\<rparr>)\<rparr>"

text \<open>
  A citation whose six fields are populated: each holds a truthy value, except that
  \<open>formatted\<close> may be the empty string, the default the code writes for it.
\<close>

definition citationPopulated :: "citation \<Rightarrow> bool" where
  "citationPopulated c =
     (truthy (Some (cite_id c))
      \<and> (truthy (Some (cite_formatted c)) \<or> cite_formatted c = JStr [])
      \<and> truthy (Some (cite_inText c))
      \<and> truthy (Some (cite_type c))
      \<and> truthy (Some (cite_year c))
      \<and> truthy (Some (cite_authors c)))"

text \<open>
  The provider answers with prose around an array of one empty object, which
  \<^verbatim>\<open>JSON.parse\<close> reads; no date is parsed.
\<close>

definition proseWorld :: stageWorld where
  "proseWorld =
     \<lparr>thisYear = 2025, dateYear = (\<lambda>s. None),
      jsonParse = (\<lambda>s. if s = ''[{}]'' then Some (JArr [JObj []]) else None),
      generateText = (\<lambda>provider. Inr ''Here are the citations: [{}] Hope this helps!'')\<rparr>"

text \<open>
  The LangSearch key is set and LangSearch returns one page, which can also be fetched
  and read for enrichment.
\<close>

definition langWorld :: world where
  "langWorld =
     offlineWorld
       \<lparr>langSearchApiKey := Some ''key'',
        hostOf := (\<lambda>u. if u = ''https://a.org/1'' then Some ''a.org'' else None),
        langSearchReply :=
          Body \<lparr>ld_code = Some 200,
                ld_items = [Some \<lparr>li_name = Some ''Alpha'', li_title = None,
                                   li_url = Some ''https://a.org/1'', li_snippet = Some ''first'',
                                   li_content = None, li_datePublished = None,
                                   li_published_date = None\<rparr>]\<rparr>,
        pageReply := (\<lambda>u. if u = ''https://a.org/1''
                           then Body \<lparr>pm_title = Some ''Alpha page'', pm_body = Some ''All about alpha''\<rparr>
                           else FetchThrows)\<rparr>"

text \<open>
  The generation provider fails on the first two calls and answers on the third.
\<close>

definition flakyProvider :: "nat \<Rightarrow> stageWorld" where
  "flakyProvider attempt =
     \<lparr>thisYear = 2025, dateYear = (\<lambda>s. None), jsonParse = (\<lambda>s. None),
      generateText = (\<lambda>provider. if attempt < 3 then Inl Thrown else Inr ''The third answer'')\<rparr>"

section \<open>Deduplication: properties\<close>

lemma removeDuplicatesFrom_keys:
  "dedupKey ` set (removeDuplicatesFrom seen rs) \<inter> seen = {}"
  by (induction rs arbitrary: seen) auto

lemma removeDuplicatesFrom_distinct:
  "distinct (map dedupKey (removeDuplicatesFrom seen rs))"
proof (induction rs arbitrary: seen)
  case Nil
  show ?case by simp
next
  case (Cons r rs)
  have "dedupKey r \<notin> dedupKey ` set (removeDuplicatesFrom (insert (dedupKey r) seen) rs)"
    using removeDuplicatesFrom_keys [of "insert (dedupKey r) seen" rs] by blast
  with Cons show ?case by simp
qed

lemma removeDuplicatesFrom_fixed:
  "distinct (map dedupKey xs) \<Longrightarrow> dedupKey ` set xs \<inter> seen = {} \<Longrightarrow>
   removeDuplicatesFrom seen xs = xs"
  by (induction xs arbitrary: seen) auto

lemma removeDuplicatesFrom_index:
  "removeDuplicatesFrom seen rs =
     map (\<lambda>i. rs ! i)
       (filter (\<lambda>i. dedupKey (rs ! i) \<notin> seen \<union> dedupKey ` set (take i rs)) [0..<length rs])"
proof (induction rs arbitrary: seen)
  case Nil
  show ?case by simp
next
  case (Cons r rs)
  let ?P = "\<lambda>s i. dedupKey (rs ! i) \<notin> s \<union> dedupKey ` set (take i rs)"
  let ?Q = "\<lambda>i. dedupKey ((r # rs) ! i) \<notin> seen \<union> dedupKey ` set (take i (r # rs))"
  have shift: "[0..<length (r # rs)] = 0 # map Suc [0..<length rs]"
    by (simp add: upt_conv_Cons map_Suc_upt del: upt_Suc)
  have pred: "?Q \<circ> Suc = ?P (insert (dedupKey r) seen)"
    by (auto simp: fun_eq_iff)
  have tl: "map (\<lambda>i. (r # rs) ! i) (filter ?Q (map Suc [0..<length rs]))
      = map (\<lambda>i. rs ! i) (filter (?P (insert (dedupKey r) seen)) [0..<length rs])"
    unfolding filter_map pred by (simp add: comp_def)
  have tl': "removeDuplicatesFrom (insert (dedupKey r) seen) rs
      = map (\<lambda>i. (r # rs) ! i) (filter ?Q (map Suc [0..<length rs]))"
    unfolding tl by (rule Cons)
  show ?case
  proof (cases "dedupKey r \<in> seen")
    case True
    then have "removeDuplicatesFrom seen (r # rs) = removeDuplicatesFrom (insert (dedupKey r) seen) rs"
      by (simp add: insert_absorb)
    also have "\<dots> = map (\<lambda>i. (r # rs) ! i) (filter ?Q (0 # map Suc [0..<length rs]))"
      unfolding tl' using True by simp
    finally show ?thesis unfolding shift .
  next
    case False
    then have "removeDuplicatesFrom seen (r # rs) = r # removeDuplicatesFrom (insert (dedupKey r) seen) rs"
      by simp
    also have "\<dots> = map (\<lambda>i. (r # rs) ! i) (filter ?Q (0 # map Suc [0..<length rs]))"
      unfolding tl' using False by simp
    finally show ?thesis unfolding shift .
  qed
qed

text \<open>
  C9 (as stated). The claim keys deduplication on the pair (title, url) and promises that
  every distinct pair keeps its first occurrence. The code keys on the single string
  \<open>title @ ''-'' @ url\<close>, so two results that differ in both title and url are merged
  when their hyphen-joined strings coincide: the second one below is dropped.
\<close>

theorem removeDuplicates_distinct_pairs_counterexample:
  "(title hyphenResultA, url hyphenResultA) \<noteq> (title hyphenResultB, url hyphenResultB)
   \<and> removeDuplicates [hyphenResultA, hyphenResultB] = [hyphenResultA]"
  by (simp add: removeDuplicates_def dedupKey_def hyphenResultA_def hyphenResultB_def)

text \<open>
  C9 (amended). Deduplication is keyed on the exact, case-sensitive string
  title, hyphen, url: the output consists of exactly those results whose key does not
  occur earlier in the input, in input order (first occurrence of each key wins, later
  ones are dropped), its keys are pairwise distinct, and deduplicating the output again
  returns the same list.
\<close>

theorem removeDuplicates_first_key_idempotent:
  "removeDuplicates rs =
     map (\<lambda>i. rs ! i)
       (filter (\<lambda>i. dedupKey (rs ! i) \<notin> dedupKey ` set (take i rs)) [0..<length rs])
   \<and> distinct (map dedupKey (removeDuplicates rs))
   \<and> removeDuplicates (removeDuplicates rs) = removeDuplicates rs"
proof (intro conjI)
  show "removeDuplicates rs =
     map (\<lambda>i. rs ! i)
       (filter (\<lambda>i. dedupKey (rs ! i) \<notin> dedupKey ` set (take i rs)) [0..<length rs])"
    using removeDuplicatesFrom_index [of "{}" rs] by (simp add: removeDuplicates_def)
  show "distinct (map dedupKey (removeDuplicates rs))"
    by (simp add: removeDuplicates_def removeDuplicatesFrom_distinct)
  show "removeDuplicates (removeDuplicates rs) = removeDuplicates rs"
    unfolding removeDuplicates_def
    by (rule removeDuplicatesFrom_fixed) (simp_all add: removeDuplicatesFrom_distinct)
qed

theorem removeDuplicates_first_key_idempotent_witness:
  "removeDuplicates [hyphenResultA, hyphenResultB\<lparr>url := ''http://c.org''\<rparr>, hyphenResultA]
     = [hyphenResultA, hyphenResultB\<lparr>url := ''http://c.org''\<rparr>]
   \<and> removeDuplicates (removeDuplicates
         [hyphenResultA, hyphenResultB\<lparr>url := ''http://c.org''\<rparr>, hyphenResultA])
     = removeDuplicates [hyphenResultA, hyphenResultB\<lparr>url := ''http://c.org''\<rparr>, hyphenResultA]"
  using removeDuplicates_first_key_idempotent
    [of "[hyphenResultA, hyphenResultB\<lparr>url := ''http://c.org''\<rparr>, hyphenResultA]"]
  by (simp add: removeDuplicates_def dedupKey_def hyphenResultA_def hyphenResultB_def)

section \<open>Abstract reconstruction: properties\<close>





section \<open>Page-size parameters: properties\<close>

lemmas route_eval_defs =
  arxivWorksRoute_def openAlexWorksRoute_def crossrefWorksRoute_def europePmcWorksRoute_def
  arxivArgsOf_def openAlexArgsOf_def crossrefArgsOf_def europePmcArgsOf_def
  blankQuery_def respond_def routeQuery_def orStr_def orUndefined_def truthyStr_def
  requestWith_def pageSizeOf_def orDefault_def jsPlatform_def trim_def parseInt10_def
  isSpaceChar_def isDigitChar_def decimalValue_def digitVal_def clampInto_def Let_def

lemma pageSizeOf_range:
  assumes "25 \<le> M"
  shows "1 \<le> pageSizeOf pf M p \<and> pageSizeOf pf M p \<le> M"
  using assms by (auto simp: pageSizeOf_def orDefault_def split: option.splits)

lemma pageSizeOf_nonzero:
  assumes "s \<noteq> []" and "parseIntOf pf s = Some v" and "v \<noteq> 0" and "1 \<le> M"
  shows "pageSizeOf pf M (Some s) = clampInto 1 M v"
proof -
  from assms(1) have "truthyStr (Some s)"
    by (cases s) (simp_all add: truthyStr_def)
  with assms(2,3,4) show ?thesis
    by (auto simp: pageSizeOf_def orDefault_def clampInto_def)
qed

lemma pageSizeOf_default:
  assumes "\<not> truthyStr p \<or> parseIntOf pf (the p) = None \<or> parseIntOf pf (the p) = Some 0"
  shows "pageSizeOf pf M p = (if truthyStr p then min M 25 else 25)"
  using assms by (auto simp: pageSizeOf_def orDefault_def)

text \<open>
  C10 (as stated). A page size of 0 is numeric, and clamping it into \<open>[1, 100]\<close> gives 1;
  the Europe PMC route computes 25 for it, because \<^verbatim>\<open>parseInt("0", 10) || 25\<close> takes the
  default for the falsy 0, and hands 25 to its service method.
\<close>

theorem page_size_zero_counterexample:
  "parseIntOf jsPlatform ''0'' = Some 0
   \<and> clampInto 1 100 0 = 1
   \<and> ea_pageSize (europePmcArgsOf jsPlatform (requestWith ''quantum'' ''pageSize'' ''0'')) = 25
   \<and> europePmcWorksRoute jsPlatform (\<lambda>q args. Inr (q, ea_pageSize args))
        (requestWith ''quantum'' ''pageSize'' ''0'') = Status200 (''quantum'', 25)"
  by (simp add: route_eval_defs)

text \<open>
  C10 (amended). Whatever the platform's \<^verbatim>\<open>trim\<close> and \<^verbatim>\<open>parseInt\<close> do, each of the four
  works routes answers 400 exactly for a blank query; otherwise it calls its service
  method with a page size that always lies in \<open>[1, maximum]\<close> (200 for OpenAlex, Crossref
  and arXiv, 100 for Europe PMC) and answers with the method's result, or with 500 when
  the call throws. No page-size value is rejected: a parameter that parses to a
  non-zero integer is clamped into the range, and one that parses to 0, does not parse,
  or is absent or empty silently takes the default 25. A page size that parses to 300
  gives the provider maximum.
\<close>

theorem works_routes_page_size:
  "arxivWorksRoute pf arxivWorks sp
     = (if blankQuery pf sp then Status400
        else (case arxivWorks (routeQuery sp) (arxivArgsOf pf sp) of
                Inr result \<Rightarrow> Status200 result | Inl e \<Rightarrow> Status500))
   \<and> aa_maxResults (arxivArgsOf pf sp) = pageSizeOf pf 200 (orStr (sp ''maxResults'') (sp ''perPage''))
   \<and> openAlexWorksRoute pf openAlexWorksSearch sp
     = (if blankQuery pf sp then Status400
        else (case openAlexWorksSearch (routeQuery sp) (openAlexArgsOf pf sp) of
                Inr result \<Rightarrow> Status200 result | Inl e \<Rightarrow> Status500))
   \<and> oq_perPage (openAlexArgsOf pf sp) = pageSizeOf pf 200 (orStr (sp ''perPage'') (sp ''per-page''))
   \<and> crossrefWorksRoute pf crossrefWorks sp
     = (if blankQuery pf sp then Status400
        else (case crossrefWorks (routeQuery sp) (crossrefArgsOf pf sp) of
                Inr result \<Rightarrow> Status200 result | Inl e \<Rightarrow> Status500))
   \<and> ca_rows (crossrefArgsOf pf sp) = pageSizeOf pf 200 (orStr (sp ''rows'') (sp ''perPage''))
   \<and> europePmcWorksRoute pf europePmcWorks sp
     = (if blankQuery pf sp then Status400
        else (case europePmcWorks (routeQuery sp) (europePmcArgsOf pf sp) of
                Inr result \<Rightarrow> Status200 result | Inl e \<Rightarrow> Status500))
   \<and> ea_pageSize (europePmcArgsOf pf sp) = pageSizeOf pf 100 (orStr (sp ''pageSize'') (sp ''perPage''))
   \<and> (\<forall>M p. M \<in> {100, 200} \<longrightarrow>
         1 \<le> pageSizeOf pf M p \<and> pageSizeOf pf M p \<le> M
         \<and> (\<forall>s v. p = Some s \<and> s \<noteq> [] \<and> parseIntOf pf s = Some v \<and> v \<noteq> 0
                \<longrightarrow> pageSizeOf pf M p = clampInto 1 M v)
         \<and> (\<not> truthyStr p \<or> parseIntOf pf (the p) = None \<or> parseIntOf pf (the p) = Some 0
                \<longrightarrow> pageSizeOf pf M p = 25)
         \<and> (\<forall>s. s \<noteq> [] \<and> parseIntOf pf s = Some 300 \<longrightarrow> pageSizeOf pf M (Some s) = M))"
proof (intro conjI allI impI)
  show "arxivWorksRoute pf arxivWorks sp
     = (if blankQuery pf sp then Status400
        else (case arxivWorks (routeQuery sp) (arxivArgsOf pf sp) of
                Inr result \<Rightarrow> Status200 result | Inl e \<Rightarrow> Status500))"
    by (simp add: arxivWorksRoute_def respond_def split: sum.splits)
  show "openAlexWorksRoute pf openAlexWorksSearch sp
     = (if blankQuery pf sp then Status400
        else (case openAlexWorksSearch (routeQuery sp) (openAlexArgsOf pf sp) of
                Inr result \<Rightarrow> Status200 result | Inl e \<Rightarrow> Status500))"
    by (simp add: openAlexWorksRoute_def respond_def split: sum.splits)
  show "crossrefWorksRoute pf crossrefWorks sp
     = (if blankQuery pf sp then Status400
        else (case crossrefWorks (routeQuery sp) (crossrefArgsOf pf sp) of
                Inr result \<Rightarrow> Status200 result | Inl e \<Rightarrow> Status500))"
    by (simp add: crossrefWorksRoute_def respond_def split: sum.splits)
  show "europePmcWorksRoute pf europePmcWorks sp
     = (if blankQuery pf sp then Status400
        else (case europePmcWorks (routeQuery sp) (europePmcArgsOf pf sp) of
                Inr result \<Rightarrow> Status200 result | Inl e \<Rightarrow> Status500))"
    by (simp add: europePmcWorksRoute_def respond_def split: sum.splits)
  show "aa_maxResults (arxivArgsOf pf sp) = pageSizeOf pf 200 (orStr (sp ''maxResults'') (sp ''perPage''))"
    by (simp add: arxivArgsOf_def Let_def)
  show "oq_perPage (openAlexArgsOf pf sp) = pageSizeOf pf 200 (orStr (sp ''perPage'') (sp ''per-page''))"
    by (simp add: openAlexArgsOf_def)
  show "ca_rows (crossrefArgsOf pf sp) = pageSizeOf pf 200 (orStr (sp ''rows'') (sp ''perPage''))"
    by (simp add: crossrefArgsOf_def pageSizeOf_def orUndefined_def truthyStr_def)
  show "ea_pageSize (europePmcArgsOf pf sp) = pageSizeOf pf 100 (orStr (sp ''pageSize'') (sp ''perPage''))"
    by (simp add: europePmcArgsOf_def)
next
  fix M :: int and p
  assume M: "M \<in> {100, 200}"
  then have M25: "25 \<le> M" and M1: "1 \<le> M" by auto
  show "pageSizeOf pf M p = clampInto 1 M v"
    if "p = Some s \<and> s \<noteq> [] \<and> parseIntOf pf s = Some v \<and> v \<noteq> 0" for s v
    using pageSizeOf_nonzero [of s pf v M] that M1 by simp
  show "1 \<le> pageSizeOf pf M p" "pageSizeOf pf M p \<le> M"
    using pageSizeOf_range [OF M25, of pf p] by simp_all
  show "pageSizeOf pf M (Some s) = M" if "s \<noteq> [] \<and> parseIntOf pf s = Some 300" for s
    using pageSizeOf_nonzero [of s pf 300 M] that M by (auto simp: clampInto_def)
  show "pageSizeOf pf M p = 25"
    if "\<not> truthyStr p \<or> parseIntOf pf (the p) = None \<or> parseIntOf pf (the p) = Some 0"
    using pageSizeOf_default [OF that, of M] M by auto
qed

theorem works_routes_page_size_witness:
  "parseIntOf jsPlatform ''300'' = Some 300
   \<and> arxivWorksRoute jsPlatform (\<lambda>q args. Inr (q, aa_maxResults args))
        (requestWith ''quantum'' ''maxResults'' ''300'') = Status200 (''quantum'', 200)
   \<and> openAlexWorksRoute jsPlatform (\<lambda>q args. Inr (q, oq_perPage args))
        (requestWith ''quantum'' ''perPage'' ''300'') = Status200 (''quantum'', 200)
   \<and> crossrefWorksRoute jsPlatform (\<lambda>q args. Inr (q, ca_rows args))
        (requestWith ''quantum'' ''rows'' ''300'') = Status200 (''quantum'', 200)
   \<and> europePmcWorksRoute jsPlatform (\<lambda>q args. Inr (q, ea_pageSize args))
        (requestWith ''quantum'' ''pageSize'' ''300'') = Status200 (''quantum'', 100)
   \<and> europePmcWorksRoute jsPlatform (\<lambda>q args. (Inl Thrown :: error + unit))
        (requestWith ''quantum'' ''pageSize'' ''300'') = Status500
   \<and> ea_pageSize (europePmcArgsOf jsPlatform (requestWith ''quantum'' ''pageSize'' ''300'')) = 100
   \<and> crossrefWorksRoute jsPlatform (\<lambda>q args. Inr (q, ca_rows args))
        (requestWith [CHR 0xA0] ''rows'' ''300'') = Status400
   \<and> ca_rows (crossrefArgsOf jsPlatform (requestWith ''quantum'' ''rows'' [CHR 0xA0, CHR ''5'', CHR ''0'']))
       = 50
   \<and> (100::int) \<in> {100, 200}
   \<and> parseIntOf jsPlatform ''-5'' = Some (- 5)
   \<and> pageSizeOf jsPlatform 100 (Some ''-5'') = clampInto 1 100 (- 5)
   \<and> clampInto 1 100 (- 5) = 1
   \<and> parseIntOf jsPlatform ''many'' = None
   \<and> pageSizeOf jsPlatform 100 (Some ''many'') = 25"
proof -
  have parse: "parseIntOf jsPlatform ''-5'' = Some (- 5)" "parseIntOf jsPlatform ''many'' = None"
      "parseIntOf jsPlatform ''300'' = Some 300"
    by (simp_all add: route_eval_defs)
  have sized: "pageSizeOf jsPlatform 100 (Some ''-5'') = clampInto 1 100 (- 5)"
      "pageSizeOf jsPlatform 100 (Some ''many'') = 25"
      "pageSizeOf jsPlatform 100 (Some ''300'') = 100"
      "pageSizeOf jsPlatform 200 (Some ''300'') = 200"
    using works_routes_page_size [of jsPlatform "\<lambda>q args. Inr (q, aa_maxResults args)"
        "requestWith ''quantum'' ''pageSize'' ''300''" "\<lambda>q args. Inr (q, oq_perPage args)"
        "\<lambda>q args. Inr (q, ca_rows args)" "\<lambda>q args. Inr (q, ea_pageSize args)"] parse
    by simp_all
  show ?thesis
    using sized parse by (simp add: route_eval_defs)
qed

section \<open>Retry wrappers: properties\<close>

lemma retryLoop_last:
  "retryLoop 3 3 stage fallback calls slept =
     (case stage 3 of Inr v \<Rightarrow> (v, calls + 1, slept) | Inl e \<Rightarrow> (fallback, calls + 1, slept))"
  by (subst retryLoop.simps) simp

lemma retryLoop_second:
  "retryLoop 3 2 stage fallback calls slept =
     (case stage 2 of
        Inr v \<Rightarrow> (v, calls + 1, slept)
      | Inl e \<Rightarrow> retryLoop 3 3 stage fallback (calls + 1) (slept @ [2 ^ 2 * 1000]))"
  by (subst retryLoop.simps) (simp split: sum.splits)

lemma retryLoop_first:
  "retryLoop 3 1 stage fallback calls slept =
     (case stage 1 of
        Inr v \<Rightarrow> (v, calls + 1, slept)
      | Inl e \<Rightarrow> retryLoop 3 2 stage fallback (calls + 1) (slept @ [2 ^ 1 * 1000]))"
proof -
  have two: "(1::nat) + 1 = 2" by simp
  show ?thesis
    by (subst retryLoop.simps) (simp only: two, simp split: sum.splits)
qed

lemma retryLoop_three:
  "retryLoop 3 1 stage fallback 0 [] = retryPolicy stage fallback"
  unfolding retryLoop_first retryLoop_second retryLoop_last retryPolicy_def
  by (simp split: sum.splits)

lemma retryLoop_first_success:
  "stage 1 = Inr v \<Longrightarrow> retryLoop 3 1 stage fallback 0 [] = (v, 1, [])"
  by (subst retryLoop_first) simp

text \<open>
  C2. The loop of each wrapper is the retry policy: up to three calls, \<open>2 ^ attempt\<close>
  seconds slept after a failed first and second call, the first success returned, the
  fallback producer's output after the third failure. But the stage function each
  wrapper calls catches every failure itself and returns its own fallback, so no call
  ever fails: whatever the providers do on each attempt, every wrapper makes one call,
  sleeps nothing and returns what the first call returned. With a provider that fails
  twice and answers on the third call, the summary wrapper returns the fallback summary
  after one call, where the policy returns the third answer after sleeps of 2 and 4
  seconds.
\<close>

theorem retry_wrappers_never_retry:
  "retryLoop 3 1 stage fallback 0 [] = retryPolicy stage fallback
   \<and> performWebSearchWithRetry worlds year query 3
     = ((case webSearchAttempt (worlds 1) query of
           Inl e \<Rightarrow> getEnhancedFallbackResults (currentYear (worlds 1)) query
         | Inr results \<Rightarrow> results), 1, [])
   \<and> generateSummaryWithRetry sws query searchResults aiProvider 3
     = ((case generateText (sws 1) aiProvider of
           Inl e \<Rightarrow> generateFallbackSummary query searchResults
         | Inr summary \<Rightarrow> summary), 1, [])
   \<and> generateCitationsWithRetry sws year parseDate searchResults citationStyle aiProvider 3
     = ((case citationsAttempt (sws 1) searchResults citationStyle aiProvider of
           Inl e \<Rightarrow> generateFallbackCitations (thisYear (sws 1)) (dateYear (sws 1)) searchResults
                      citationStyle
         | Inr citations \<Rightarrow> citations), 1, [])
   \<and> extractInsightsWithRetry sws summary aiProvider 3
     = ((case stringsAttempt (sws 1) 10 (extractInsightsFromSummary summary) aiProvider of
           Inl e \<Rightarrow> extractInsightsFromSummary summary
         | Inr insights \<Rightarrow> insights), 1, [])
   \<and> generateRelatedTopicsWithRetry sws query summary aiProvider 3
     = ((case stringsAttempt (sws 1) 5 (generateFallbackRelatedTopics query) aiProvider of
           Inl e \<Rightarrow> generateFallbackRelatedTopics query
         | Inr topics \<Rightarrow> topics), 1, [])
   \<and> generateSummaryWithRetry flakyProvider ''graphene'' [] Groq 3
     = (generateFallbackSummary ''graphene'' [], 1, [])
   \<and> retryPolicy (\<lambda>attempt. generateText (flakyProvider attempt) Groq)
        (generateFallbackSummary ''graphene'' [])
     = (''The third answer'', 3, [2000, 4000])"
proof (intro conjI)
  show "retryLoop 3 1 stage fallback 0 [] = retryPolicy stage fallback"
    by (rule retryLoop_three)
  show "performWebSearchWithRetry worlds year query 3
     = ((case webSearchAttempt (worlds 1) query of
           Inl e \<Rightarrow> getEnhancedFallbackResults (currentYear (worlds 1)) query
         | Inr results \<Rightarrow> results), 1, [])"
    unfolding performWebSearchWithRetry_def
    by (rule retryLoop_first_success) (simp add: performWebSearch_def split: sum.splits)
  show "generateSummaryWithRetry sws query searchResults aiProvider 3
     = ((case generateText (sws 1) aiProvider of
           Inl e \<Rightarrow> generateFallbackSummary query searchResults
         | Inr summary \<Rightarrow> summary), 1, [])"
    unfolding generateSummaryWithRetry_def
    by (rule retryLoop_first_success) (simp add: generateSummary_def split: sum.splits)
  show "generateCitationsWithRetry sws year parseDate searchResults citationStyle aiProvider 3
     = ((case citationsAttempt (sws 1) searchResults citationStyle aiProvider of
           Inl e \<Rightarrow> generateFallbackCitations (thisYear (sws 1)) (dateYear (sws 1)) searchResults
                      citationStyle
         | Inr citations \<Rightarrow> citations), 1, [])"
    unfolding generateCitationsWithRetry_def
    by (rule retryLoop_first_success) (simp add: generateCitations_def split: sum.splits)
  show "extractInsightsWithRetry sws summary aiProvider 3
     = ((case stringsAttempt (sws 1) 10 (extractInsightsFromSummary summary) aiProvider of
           Inl e \<Rightarrow> extractInsightsFromSummary summary
         | Inr insights \<Rightarrow> insights), 1, [])"
    unfolding extractInsightsWithRetry_def
    by (rule retryLoop_first_success) (simp add: extractInsights_def split: sum.splits)
  show "generateRelatedTopicsWithRetry sws query summary aiProvider 3
     = ((case stringsAttempt (sws 1) 5 (generateFallbackRelatedTopics query) aiProvider of
           Inl e \<Rightarrow> generateFallbackRelatedTopics query
         | Inr topics \<Rightarrow> topics), 1, [])"
    unfolding generateRelatedTopicsWithRetry_def
    by (rule retryLoop_first_success) (simp add: generateRelatedTopics_def split: sum.splits)
  show "generateSummaryWithRetry flakyProvider ''graphene'' [] Groq 3
     = (generateFallbackSummary ''graphene'' [], 1, [])"
    unfolding generateSummaryWithRetry_def
    by (rule retryLoop_first_success) (simp add: generateSummary_def flakyProvider_def)
  show "retryPolicy (\<lambda>attempt. generateText (flakyProvider attempt) Groq)
        (generateFallbackSummary ''graphene'' [])
     = (''The third answer'', 3, [2000, 4000])"
    by (simp add: retryPolicy_def flakyProvider_def)
qed

section \<open>Provider normalizers: properties\<close>

lemmas normalizer_eval_defs =
  normalizeOpenAlexWork_def normalizeCrossrefItem_def normalizeEuropePmcItem_def
  normalizeArxivEntry_def orUndefined_def orStr_def orElse_def truthyStr_def stripDoiOrg_def
  nthOpt_def sharedDoiWork_def sharedDoiItem_def sharedDoiPmc_def Let_def

text \<open>
  C4 (as stated). An OpenAlex work and a Crossref item that carry the same DOI: both
  normalizers report the DOI \<^verbatim>\<open>10.7717/peerj.4375\<close>, but the OpenAlex normalizer keeps
  the work's OpenAlex id, so the two ids differ and the OpenAlex id is not DOI-based.
\<close>

theorem openalex_id_not_doi_counterexample:
  "paper_doi (normalizeOpenAlexWork sharedDoiWork) = Some ''10.7717/peerj.4375''
   \<and> paper_doi (normalizeCrossrefItem sharedDoiItem) = Some ''10.7717/peerj.4375''
   \<and> paper_id (normalizeOpenAlexWork sharedDoiWork) = Some ''https://openalex.org/W2741809807''
   \<and> paper_id (normalizeCrossrefItem sharedDoiItem) = Some ''https://doi.org/10.7717/peerj.4375''"
  by (simp add: normalizer_eval_defs)

text \<open>
  C4 (amended). The Crossref and Europe PMC normalizers give the id
  \<^verbatim>\<open>https://doi.org/<doi>\<close> whenever the payload carries a non-empty DOI, so the two agree
  on records that share a DOI. Without a DOI, Crossref falls back to the record's url or
  else its title, and Europe PMC to \<^verbatim>\<open>europepmc:<id>\<close> or else the title or
  \<^verbatim>\<open>unknown\<close>. The OpenAlex normalizer always uses the work's own id and the arXiv
  normalizer the entry's id (it reports no DOI).
\<close>

theorem normalizer_ids:
  "paper_doi (normalizeCrossrefItem item) = orUndefined (cr_DOI item)
   \<and> paper_doi (normalizeEuropePmcItem pmc) = orUndefined (ep_doi pmc)
   \<and> (\<forall>d. paper_doi (normalizeCrossrefItem item) = Some d
          \<longrightarrow> paper_id (normalizeCrossrefItem item) = Some (''https://doi.org/'' @ d))
   \<and> (\<forall>d. paper_doi (normalizeEuropePmcItem pmc) = Some d
          \<longrightarrow> paper_id (normalizeEuropePmcItem pmc) = Some (''https://doi.org/'' @ d))
   \<and> (paper_doi (normalizeCrossrefItem item) \<noteq> None
        \<and> paper_doi (normalizeCrossrefItem item) = paper_doi (normalizeEuropePmcItem pmc)
        \<longrightarrow> paper_id (normalizeCrossrefItem item) = paper_id (normalizeEuropePmcItem pmc))
   \<and> (paper_doi (normalizeCrossrefItem item) = None
        \<longrightarrow> paper_id (normalizeCrossrefItem item)
            = orStr (paper_url (normalizeCrossrefItem item)) (paper_title (normalizeCrossrefItem item))
          \<and> paper_url (normalizeCrossrefItem item) = orUndefined (cr_URL item))
   \<and> (paper_doi (normalizeEuropePmcItem pmc) = None
        \<longrightarrow> paper_id (normalizeEuropePmcItem pmc)
            = (if truthyStr (ep_id pmc) then Some (''europepmc:'' @ the (ep_id pmc))
               else Some (orElse (ep_title pmc) ''unknown'')))
   \<and> paper_id (normalizeOpenAlexWork work) = Some (oa_id work)
   \<and> paper_id (normalizeArxivEntry entry) = Some (ax_id entry)
   \<and> paper_doi (normalizeArxivEntry entry) = None"
proof -
  have ids: "paper_id (normalizeCrossrefItem item) = Some (''https://doi.org/'' @ d)"
    if "paper_doi (normalizeCrossrefItem item) = Some d" for d
    using that by (simp add: normalizeCrossrefItem_def Let_def)
  have idp: "paper_id (normalizeEuropePmcItem pmc) = Some (''https://doi.org/'' @ d)"
    if "paper_doi (normalizeEuropePmcItem pmc) = Some d" for d
    using that by (simp add: normalizeEuropePmcItem_def Let_def)
  have same: "paper_id (normalizeCrossrefItem item) = paper_id (normalizeEuropePmcItem pmc)"
    if "paper_doi (normalizeCrossrefItem item) \<noteq> None"
      and "paper_doi (normalizeCrossrefItem item) = paper_doi (normalizeEuropePmcItem pmc)"
  proof -
    from that(1) obtain d where d: "paper_doi (normalizeCrossrefItem item) = Some d" by blast
    with that(2) have "paper_doi (normalizeEuropePmcItem pmc) = Some d" by simp
    with d show ?thesis by (simp add: ids idp)
  qed
  have nodoi: "paper_id (normalizeCrossrefItem item)
        = orStr (paper_url (normalizeCrossrefItem item)) (paper_title (normalizeCrossrefItem item))
      \<and> paper_url (normalizeCrossrefItem item) = orUndefined (cr_URL item)"
    if "paper_doi (normalizeCrossrefItem item) = None"
    using that by (simp add: normalizeCrossrefItem_def Let_def orStr_def orUndefined_def)
  have nodoip: "paper_id (normalizeEuropePmcItem pmc)
        = (if truthyStr (ep_id pmc) then Some (''europepmc:'' @ the (ep_id pmc))
           else Some (orElse (ep_title pmc) ''unknown''))"
    if "paper_doi (normalizeEuropePmcItem pmc) = None"
    using that by (simp add: normalizeEuropePmcItem_def Let_def)
  have rest: "paper_doi (normalizeCrossrefItem item) = orUndefined (cr_DOI item)"
      "paper_doi (normalizeEuropePmcItem pmc) = orUndefined (ep_doi pmc)"
      "paper_id (normalizeOpenAlexWork work) = Some (oa_id work)"
      "paper_id (normalizeArxivEntry entry) = Some (ax_id entry)"
      "paper_doi (normalizeArxivEntry entry) = None"
    by (simp_all add: normalizeCrossrefItem_def normalizeEuropePmcItem_def
        normalizeOpenAlexWork_def normalizeArxivEntry_def Let_def)
  from ids idp same nodoi nodoip rest show ?thesis by blast
qed

theorem normalizer_ids_witness:
  "paper_doi (normalizeCrossrefItem sharedDoiItem) = Some ''10.7717/peerj.4375''
   \<and> paper_doi (normalizeEuropePmcItem sharedDoiPmc) = Some ''10.7717/peerj.4375''
   \<and> paper_id (normalizeCrossrefItem sharedDoiItem) = Some ''https://doi.org/10.7717/peerj.4375''
   \<and> paper_id (normalizeEuropePmcItem sharedDoiPmc) = paper_id (normalizeCrossrefItem sharedDoiItem)
   \<and> paper_doi (normalizeCrossrefItem (sharedDoiItem\<lparr>cr_DOI := None\<rparr>)) = None
   \<and> paper_id (normalizeCrossrefItem (sharedDoiItem\<lparr>cr_DOI := None\<rparr>))
       = Some ''http://dx.doi.org/10.7717/peerj.4375''
   \<and> paper_doi (normalizeEuropePmcItem (sharedDoiPmc\<lparr>ep_doi := Some []\<rparr>)) = None
   \<and> paper_id (normalizeEuropePmcItem (sharedDoiPmc\<lparr>ep_doi := Some []\<rparr>)) = Some ''europepmc:29456894''"
proof -
  have doi: "paper_doi (normalizeCrossrefItem sharedDoiItem) = Some ''10.7717/peerj.4375''"
      "paper_doi (normalizeEuropePmcItem sharedDoiPmc) = Some ''10.7717/peerj.4375''"
      "paper_doi (normalizeCrossrefItem (sharedDoiItem\<lparr>cr_DOI := None\<rparr>)) = None"
      "paper_doi (normalizeEuropePmcItem (sharedDoiPmc\<lparr>ep_doi := Some []\<rparr>)) = None"
    by (simp_all add: normalizer_eval_defs)
  have url: "cr_URL (sharedDoiItem\<lparr>cr_DOI := None\<rparr>) = Some ''http://dx.doi.org/10.7717/peerj.4375''"
      "ep_id (sharedDoiPmc\<lparr>ep_doi := Some []\<rparr>) = Some ''29456894''"
    by (simp_all add: normalizer_eval_defs)
  show ?thesis
    using normalizer_ids [of sharedDoiItem sharedDoiPmc]
      normalizer_ids [of "sharedDoiItem\<lparr>cr_DOI := None\<rparr>" "sharedDoiPmc\<lparr>ep_doi := Some []\<rparr>"]
      doi url
    by (simp add: orStr_def truthyStr_def orUndefined_def)
qed

section \<open>Indexed traversals that may throw\<close>

lemma mapIndexed_Inr:
  "mapIndexed f i xs = Inr ys \<Longrightarrow>
     length ys = length xs \<and> (\<forall>k<length xs. f (i + k) (xs ! k) = Inr (ys ! k))"
proof (induction xs arbitrary: i ys)
  case Nil
  then show ?case by simp
next
  case (Cons x xs)
  from Cons.prems obtain y ys' where y: "f i x = Inr y"
    and ys': "mapIndexed f (Suc i) xs = Inr ys'" and ys: "ys = y # ys'"
    by (auto split: sum.splits)
  from Cons.IH [OF ys'] have len: "length ys' = length xs"
    and nth: "\<And>k. k < length xs \<Longrightarrow> f (Suc i + k) (xs ! k) = Inr (ys' ! k)" by auto
  show ?case
  proof (intro conjI allI impI)
    show "length ys = length (x # xs)" using len ys by simp
    fix k assume "k < length (x # xs)"
    then show "f (i + k) ((x # xs) ! k) = Inr (ys ! k)"
      using y ys nth by (cases k) auto
  qed
qed

lemma mapIndexed_Inl:
  "mapIndexed f i xs = Inl e \<Longrightarrow> \<exists>k<length xs. f (i + k) (xs ! k) = Inl e"
proof (induction xs arbitrary: i)
  case Nil
  then show ?case by simp
next
  case (Cons x xs)
  show ?case
  proof (cases "f i x")
    case (Inl e')
    with Cons.prems have "e' = e" by simp
    with Inl show ?thesis by (intro exI [of _ 0]) simp
  next
    case (Inr y)
    with Cons.prems have "mapIndexed f (Suc i) xs = Inl e" by (auto split: sum.splits)
    from Cons.IH [OF this] obtain k where "k < length xs" "f (Suc i + k) (xs ! k) = Inl e" by blast
    then show ?thesis by (intro exI [of _ "Suc k"]) simp
  qed
qed

lemma mapIndexed_total:
  "(\<forall>k<length xs. \<exists>y. f (i + k) (xs ! k) = Inr y) \<Longrightarrow> \<exists>ys. mapIndexed f i xs = Inr ys"
proof (cases "mapIndexed f i xs")
  case (Inl e)
  from mapIndexed_Inl [OF this] obtain k where "k < length xs" "f (i + k) (xs ! k) = Inl e" by blast
  moreover assume "\<forall>k<length xs. \<exists>y. f (i + k) (xs ! k) = Inr y"
  ultimately show ?thesis by force
next
  case (Inr ys)
  then show ?thesis by blast
qed


section \<open>Reranking: properties\<close>



lemma originalAt_resolves:
  "results \<noteq> [] \<Longrightarrow>
     originalAt results idx \<in> set results
     \<and> (\<forall>i. idx = Some i \<and> 0 \<le> i \<and> i < int (length results) \<longrightarrow> originalAt results idx = results ! nat i)
     \<and> (idx = None \<or> (\<exists>i. idx = Some i \<and> (i < 0 \<or> int (length results) \<le> i))
          \<longrightarrow> originalAt results idx = results ! 0)"
proof -
  assume ne: "results \<noteq> []"
  then have hd0: "hd results = results ! 0" by (simp add: hd_conv_nth)
  have mem: "originalAt results idx \<in> set results"
    using ne by (auto simp: originalAt_def split: option.splits)
  have hit: "originalAt results idx = results ! nat i"
    if "idx = Some i \<and> 0 \<le> i \<and> i < int (length results)" for i
    using that by (auto simp: originalAt_def)
  have miss: "originalAt results idx = results ! 0"
    if "idx = None \<or> (\<exists>i. idx = Some i \<and> (i < 0 \<or> int (length results) \<le> i))"
    using that hd0 by (auto simp: originalAt_def)
  from mem hit miss show ?thesis by blast
qed









section \<open>Generation stages: properties\<close>

lemma matchJsonArray_wrapped:
  assumes "CHR ''['' \<notin> set pre" and "CHR '']'' \<notin> set post"
  shows "matchJsonArray (pre @ CHR ''['' # body @ CHR '']'' # post) = Some (CHR ''['' # body @ '']'')"
proof -
  have open_: "dropWhile (\<lambda>c. c \<noteq> CHR ''['') (pre @ CHR ''['' # body @ CHR '']'' # post)
      = CHR ''['' # body @ CHR '']'' # post"
    using assms(1) by (auto simp: dropWhile_append3)
  have close_: "dropWhile (\<lambda>c. c \<noteq> CHR '']'') (rev post @ CHR '']'' # rev body) = CHR '']'' # rev body"
    using assms(2) by (auto simp: dropWhile_append3)
  show ?thesis
    unfolding matchJsonArray_def open_ by (simp add: close_)
qed

lemma matchJsonArray_Some:
  assumes "matchJsonArray text = Some m"
  shows "\<exists>pre body post. text = pre @ m @ post \<and> m = CHR ''['' # body @ '']''
           \<and> CHR ''['' \<notin> set pre \<and> CHR '']'' \<notin> set post"
proof -
  let ?pre = "takeWhile (\<lambda>c. c \<noteq> CHR ''['') text"
  let ?from = "dropWhile (\<lambda>c. c \<noteq> CHR ''['') text"
  from assms obtain b rest where from_: "?from = b # rest"
    by (auto simp: matchJsonArray_def split: list.splits)
  then have b: "b = CHR ''[''"
    using hd_dropWhile [of "\<lambda>c. c \<noteq> CHR ''[''" "text"] by auto
  let ?post = "rev (takeWhile (\<lambda>c. c \<noteq> CHR '']'') (rev rest))"
  let ?closing = "dropWhile (\<lambda>c. c \<noteq> CHR '']'') (rev rest)"
  from assms from_ obtain c cl where closing: "?closing = c # cl" and m: "m = b # rev ?closing"
    by (auto simp: matchJsonArray_def split: list.splits)
  then have c: "c = CHR '']''"
    using hd_dropWhile [of "\<lambda>c. c \<noteq> CHR '']''" "rev rest"] by auto
  have "rev rest = takeWhile (\<lambda>c. c \<noteq> CHR '']'') (rev rest) @ ?closing" by simp
  then have "rest = rev ?closing @ ?post"
    by (metis rev_append rev_rev_ident)
  then have rest: "rest = rev cl @ [c] @ ?post" using closing by simp
  have whole: "text = ?pre @ b # rest" using from_ by (metis takeWhile_dropWhile_id)
  have "text = ?pre @ m @ ?post" using whole rest m closing by simp
  moreover have "m = CHR ''['' # rev cl @ '']''" using m closing b c by simp
  moreover have "CHR ''['' \<notin> set ?pre" by (auto dest: set_takeWhileD)
  moreover have "CHR '']'' \<notin> set ?post" by (auto dest: set_takeWhileD)
  ultimately show ?thesis by blast
qed

lemma showNat_nonempty: "showNat n \<noteq> []"
  by (subst showNat.simps) simp

lemma showInt_nonempty: "showInt i \<noteq> []"
  by (simp add: showInt_def showNat_nonempty)

lemma extractYear_nonempty: "extractYear y d p \<noteq> []"
  by (simp add: extractYear_def showNat_nonempty showInt_nonempty split: option.splits)

lemma determineSourceType_nonempty: "determineSourceType d \<noteq> []"
  by (simp add: determineSourceType_def)

lemma orJson_truthy: "truthy (Some d) \<Longrightarrow> truthy (Some (orJson a d))"
  by (cases a) (auto simp: orJson_def truthy_def)

lemma truthy_JStr: "truthy (Some (JStr s)) = (s \<noteq> [])"
  by (simp add: truthy_def)

lemma truthy_JArr: "truthy (Some (JArr xs))"
  by (simp add: truthy_def)

lemma citationFrom_populated:
  assumes "citationFrom y d rs k c = Inr cit"
  shows "citationPopulated cit"
proof -
  from assms have cit: "cit =
        \<lparr>cite_id = orJson (member c ''id'') (JStr (''cite-'' @ showNat (k + 1))),
         cite_formatted = orJson (orJ (member c ''formatted'') (member c ''citation'')) (JStr []),
         cite_inText = orJson (orJ (member c ''inText'') (member c ''in_text''))
           (JStr (''('' @ showNat (k + 1) @ '')'')),
         cite_type = orJson (member c ''type'')
           (JStr (determineSourceType (orElse (map_option domain (nthOpt rs k)) []))),
         cite_year = orJson (member c ''year'')
           (JStr (extractYear y d
                    (case nthOpt rs k of Some r \<Rightarrow> published_date r | None \<Rightarrow> None))),
         cite_authors = orJson (member c ''authors'')
           (JArr [JStr (orElse (case nthOpt rs k of Some r \<Rightarrow> author r | None \<Rightarrow> None)
                          ''Unknown'')])\<rparr>"
    by (auto simp: citationFrom_def split: if_splits)
  have fmt: "truthy (Some (orJson a (JStr []))) \<or> orJson a (JStr []) = JStr []" for a
    by (cases a) (auto simp: orJson_def truthy_def)
  show ?thesis
    unfolding citationPopulated_def cit
    using fmt
    by (simp add: orJson_truthy truthy_JStr truthy_JArr determineSourceType_nonempty
        extractYear_nonempty)
qed

lemma fallbackCitation_populated:
  "citationPopulated (generateFallbackCitation y d style i source)"
  by (simp add: citationPopulated_def generateFallbackCitation_def Let_def truthy_def
      determineSourceType_nonempty extractYear_nonempty)

lemma fallbackCitations_populated:
  "\<forall>c\<in>set (generateFallbackCitations y d sources style). citationPopulated c"
  by (auto simp: generateFallbackCitations_def fallbackCitation_populated)

lemma citationsAttempt_populated:
  assumes "citationsAttempt sw rs style p = Inr cs"
  shows "\<forall>c\<in>set cs. citationPopulated c"
proof (cases "generateText sw p")
  case (Inl e)
  with assms show ?thesis by (simp add: citationsAttempt_def)
next
  case (Inr raw)
  show ?thesis
  proof (cases "matchJsonArray raw")
    case None
    with Inr assms show ?thesis
      using fallbackCitations_populated by (auto simp: citationsAttempt_def)
  next
    case (Some m)
    with Inr assms obtain items where items: "jsonParse sw m = Some (JArr items)"
      and cs: "mapIndexed (citationFrom (thisYear sw) (dateYear sw) rs) 0 items = Inr cs"
      by (auto simp: citationsAttempt_def split: option.splits json.splits)
    from mapIndexed_Inr [OF cs] have len: "length cs = length items"
      and nth: "\<And>k. k < length items \<Longrightarrow>
          citationFrom (thisYear sw) (dateYear sw) rs k (items ! k) = Inr (cs ! k)"
      by auto
    show ?thesis
    proof
      fix c assume "c \<in> set cs"
      then obtain k where "k < length cs" "c = cs ! k" by (auto simp: in_set_conv_nth)
      with len nth [of k] show "citationPopulated c"
        using citationFrom_populated by auto
    qed
  qed
qed

lemma generateCitations_populated:
  "\<exists>cs. generateCitations sw rs style p = Inr cs \<and> (\<forall>c\<in>set cs. citationPopulated c)"
proof (cases "citationsAttempt sw rs style p")
  case (Inl e)
  then show ?thesis
    using fallbackCitations_populated by (simp add: generateCitations_def)
next
  case (Inr cs)
  then show ?thesis
    using citationsAttempt_populated [OF Inr] by (simp add: generateCitations_def)
qed

lemma generateCitations_mapped:
  assumes "generateText sw p = Inr raw" and "matchJsonArray raw = Some m"
    and "jsonParse sw m = Some (JArr items)" and "JNull \<notin> set items"
  shows "\<exists>cs. generateCitations sw rs style p = Inr cs \<and> length cs = length items
       \<and> (\<forall>k<length items. citationFrom (thisYear sw) (dateYear sw) rs k (items ! k) = Inr (cs ! k))"
proof -
  let ?f = "citationFrom (thisYear sw) (dateYear sw) rs"
  have "\<forall>k<length items. \<exists>y. ?f (0 + k) (items ! k) = Inr y"
    using assms(4) by (auto simp: citationFrom_def in_set_conv_nth)
  from mapIndexed_total [OF this] obtain cs where cs: "mapIndexed ?f 0 items = Inr cs" by blast
  from mapIndexed_Inr [OF cs] have "length cs = length items"
    "\<forall>k<length items. ?f k (items ! k) = Inr (cs ! k)" by auto
  moreover have "generateCitations sw rs style p = Inr cs"
    using assms cs by (simp add: generateCitations_def citationsAttempt_def)
  ultimately show ?thesis by blast
qed

lemma strings_stage_mapped:
  assumes "generateText sw p = Inr raw" and "matchJsonArray raw = Some m"
    and "jsonParse sw m = Some (JArr items)"
  shows "extractInsights sw summary p = Inr (longStrings 10 items)"
    and "generateRelatedTopics sw query summary p = Inr (longStrings 5 items)"
  using assms by (simp_all add: extractInsights_def generateRelatedTopics_def stringsAttempt_def)

lemma stages_without_match:
  assumes "generateText sw p = Inr raw" and "matchJsonArray raw = None"
  shows "generateCitations sw rs style p
           = Inr (generateFallbackCitations (thisYear sw) (dateYear sw) rs style)"
    and "extractInsights sw summary p = Inr (extractInsightsFromSummary summary)"
    and "generateRelatedTopics sw query summary p = Inr (generateFallbackRelatedTopics query)"
  using assms
  by (simp_all add: generateCitations_def citationsAttempt_def extractInsights_def
      generateRelatedTopics_def stringsAttempt_def)

lemmas stage_eval_defs =
  proseWorld_def generateCitations_def citationsAttempt_def citationFrom_def matchJsonArray_def
  member_def orJson_def orJ_def truthy_def determineSourceType_def extractYear_def nthOpt_def
  orElse_def truthyStr_def showNat.simps digitChar_def candidateA_def citationPopulated_def
  extractInsights_def generateRelatedTopics_def stringsAttempt_def longStrings_def

text \<open>
  C7 (as stated). The extraction is not the first balanced bracketed substring: on a
  reply whose prose mentions a bracketed reference after the array, the regular
  expression takes everything from the first \<^verbatim>\<open>[\<close> to the last \<^verbatim>\<open>]\<close>, while the first
  balanced substring is the array alone.
\<close>

theorem first_balanced_counterexample:
  "matchJsonArray ''[1, 2] as listed in [3]'' = Some ''[1, 2] as listed in [3]''
   \<and> firstBalanced ''[1, 2] as listed in [3]'' = Some ''[1, 2]''"
  by (simp add: matchJsonArray_def)

text \<open>
  C7 (amended). The citations, insights and related-topics stages extract the span from
  the first \<^verbatim>\<open>[\<close> to the last \<^verbatim>\<open>]\<close> of the reply: prose before the array that has no
  \<^verbatim>\<open>[\<close> and prose after it that has no \<^verbatim>\<open>]\<close> is tolerated, and every match has this
  form. When the span parses to an array the stage maps it (citations take each missing
  field from its generated default, insights and topics keep the long enough strings);
  without a match the stage returns its local fallback. Whatever the provider answers,
  the citations stage returns citations whose six fields are all populated, \<open>formatted\<close>
  defaulting to the empty string. The summary stage extracts nothing: it returns the
  reply as it is.
\<close>

theorem stages_extract_bracket_span:
  "(\<forall>pre body post. CHR ''['' \<notin> set pre \<and> CHR '']'' \<notin> set post
       \<longrightarrow> matchJsonArray (pre @ CHR ''['' # body @ CHR '']'' # post) = Some (CHR ''['' # body @ '']''))
   \<and> (\<forall>raw m. matchJsonArray raw = Some m
         \<longrightarrow> (\<exists>pre body post. raw = pre @ m @ post \<and> m = CHR ''['' # body @ '']''
                \<and> CHR ''['' \<notin> set pre \<and> CHR '']'' \<notin> set post))
   \<and> (\<forall>raw m items.
         generateText sw p = Inr raw \<and> matchJsonArray raw = Some m
         \<and> jsonParse sw m = Some (JArr items)
         \<longrightarrow> extractInsights sw summary p = Inr (longStrings 10 items)
             \<and> generateRelatedTopics sw query summary p = Inr (longStrings 5 items)
             \<and> (JNull \<notin> set items
                 \<longrightarrow> (\<exists>cs. generateCitations sw rs style p = Inr cs \<and> length cs = length items
                        \<and> (\<forall>k<length items.
                              citationFrom (thisYear sw) (dateYear sw) rs k (items ! k)
                                = Inr (cs ! k)))))
   \<and> (\<forall>raw. generateText sw p = Inr raw \<and> matchJsonArray raw = None
         \<longrightarrow> generateCitations sw rs style p
               = Inr (generateFallbackCitations (thisYear sw) (dateYear sw) rs style)
             \<and> extractInsights sw summary p = Inr (extractInsightsFromSummary summary)
             \<and> generateRelatedTopics sw query summary p = Inr (generateFallbackRelatedTopics query))
   \<and> (\<exists>cs. generateCitations sw rs style p = Inr cs \<and> (\<forall>c\<in>set cs. citationPopulated c))
   \<and> (\<forall>raw. generateText sw p = Inr raw \<longrightarrow> generateSummary sw query rs p = Inr raw)"
proof (intro conjI)
  show "\<forall>pre body post. CHR ''['' \<notin> set pre \<and> CHR '']'' \<notin> set post
       \<longrightarrow> matchJsonArray (pre @ CHR ''['' # body @ CHR '']'' # post) = Some (CHR ''['' # body @ '']'')"
    using matchJsonArray_wrapped by blast
  show "\<forall>raw m. matchJsonArray raw = Some m
         \<longrightarrow> (\<exists>pre body post. raw = pre @ m @ post \<and> m = CHR ''['' # body @ '']''
                \<and> CHR ''['' \<notin> set pre \<and> CHR '']'' \<notin> set post)"
    using matchJsonArray_Some by blast
  show "\<forall>raw m items.
         generateText sw p = Inr raw \<and> matchJsonArray raw = Some m
         \<and> jsonParse sw m = Some (JArr items)
         \<longrightarrow> extractInsights sw summary p = Inr (longStrings 10 items)
             \<and> generateRelatedTopics sw query summary p = Inr (longStrings 5 items)
             \<and> (JNull \<notin> set items
                 \<longrightarrow> (\<exists>cs. generateCitations sw rs style p = Inr cs \<and> length cs = length items
                        \<and> (\<forall>k<length items.
                              citationFrom (thisYear sw) (dateYear sw) rs k (items ! k)
                                = Inr (cs ! k))))"
    using strings_stage_mapped [of sw p] generateCitations_mapped [of sw p] by blast
  show "\<forall>raw. generateText sw p = Inr raw \<and> matchJsonArray raw = None
         \<longrightarrow> generateCitations sw rs style p
               = Inr (generateFallbackCitations (thisYear sw) (dateYear sw) rs style)
             \<and> extractInsights sw summary p = Inr (extractInsightsFromSummary summary)
             \<and> generateRelatedTopics sw query summary p = Inr (generateFallbackRelatedTopics query)"
    using stages_without_match [of sw p] by blast
  show "\<exists>cs. generateCitations sw rs style p = Inr cs \<and> (\<forall>c\<in>set cs. citationPopulated c)"
    by (rule generateCitations_populated)
  show "\<forall>raw. generateText sw p = Inr raw \<longrightarrow> generateSummary sw query rs p = Inr raw"
    by (simp add: generateSummary_def)
qed

theorem stages_extract_bracket_span_witness:
  "CHR ''['' \<notin> set ''Here are the citations: '' \<and> CHR '']'' \<notin> set '' Hope this helps!''
   \<and> matchJsonArray ''Here are the citations: [{}] Hope this helps!'' = Some ''[{}]''
   \<and> generateText proseWorld Groq = Inr ''Here are the citations: [{}] Hope this helps!''
   \<and> jsonParse proseWorld ''[{}]'' = Some (JArr [JObj []])
   \<and> generateCitations proseWorld [candidateA] ''apa'' Groq
       = Inr [\<lparr>cite_id = JStr ''cite-1'', cite_formatted = JStr [], cite_inText = JStr ''(1)'',
               cite_type = JStr ''institutional'', cite_year = JStr ''2025'',
               cite_authors = JArr [JStr ''Unknown'']\<rparr>]
   \<and> citationPopulated \<lparr>cite_id = JStr ''cite-1'', cite_formatted = JStr [], cite_inText = JStr ''(1)'',
               cite_type = JStr ''institutional'', cite_year = JStr ''2025'',
               cite_authors = JArr [JStr ''Unknown'']\<rparr>
   \<and> extractInsights proseWorld ''summary'' Groq = Inr []"
  using stages_extract_bracket_span [of proseWorld Groq "''summary''" "''q''" "[candidateA]" "''apa''"]
  by (simp add: stage_eval_defs)

section \<open>The search service: properties\<close>

lemma catchEmpty_total: "\<exists>rs. catchEmpty body = Inr rs"
  by (cases body) (simp_all add: catchEmpty_def)

lemma getRealSearchResults_total: "\<exists>rs. getRealSearchResults w query = Inr rs"
  by (simp add: getRealSearchResults_def realSearchAttempt_def)

lemma slice0_length: "0 \<le> n \<Longrightarrow> length (slice0 xs n) \<le> nat n"
  by (simp add: slice0_def)

lemma slice0_nonempty: "1 \<le> n \<Longrightarrow> xs \<noteq> [] \<Longrightarrow> slice0 xs n \<noteq> []"
  by (cases xs) (auto simp: slice0_def take_Cons' )

lemma removeDuplicates_nonempty: "xs \<noteq> [] \<Longrightarrow> removeDuplicates xs \<noteq> []"
  by (cases xs) (simp_all add: removeDuplicates_def)

lemma settledValues_nonempty:
  "Inr (r # rs) \<in> set settled \<Longrightarrow> settledValues settled \<noteq> []"
  by (induction settled) (auto simp: settledValues_def)

lemma search_shape:
  "\<exists>finalResults. search w query n = Inr (slice0 (map (enhanceResult (pageReply w)) finalResults) n)
     \<and> ((truthyStr (langSearchApiKey w)
            \<and> (\<exists>r rs. searchWithLangSearch (hostOf w) (nowIso w) (langSearchReply w) = Inr (r # rs))
          \<or> truthyStr (braveApiKey w)
            \<and> (\<exists>r rs. searchWithBrave (hostOf w) (nowIso w) (braveReply w) = Inr (r # rs))
          \<or> (\<exists>r rs. Inr (r # rs) \<in> set
                [searchWithDuckDuckGo (hostOf w) (nowIso w) query (duckDuckGoReply w),
                 searchWithWikipedia (nowIso w) query (wikipediaReply w),
                 searchWithArXiv (nowIso w) query (arxivReply w),
                 searchWithPubMed (nowIso w) query (pubmedReply w) (pubmedSummary w)]))
         \<longrightarrow> finalResults \<noteq> [])"
proof -
  let ?lang = "searchWithLangSearch (hostOf w) (nowIso w) (langSearchReply w)"
  let ?brave = "searchWithBrave (hostOf w) (nowIso w) (braveReply w)"
  let ?settled = "[searchWithDuckDuckGo (hostOf w) (nowIso w) query (duckDuckGoReply w),
                 searchWithWikipedia (nowIso w) query (wikipediaReply w),
                 searchWithArXiv (nowIso w) query (arxivReply w),
                 searchWithPubMed (nowIso w) query (pubmedReply w) (pubmedSummary w)]"
  define results1 where "results1 =
            (if truthyStr (langSearchApiKey w) then
               (case ?lang of Inr langSearchResults \<Rightarrow> langSearchResults | Inl e \<Rightarrow> [])
             else [])"
  define results2 where "results2 =
            (if truthyStr (braveApiKey w) \<and> length results1 < 5 then
               (case ?brave of Inr braveResults \<Rightarrow> results1 @ braveResults | Inl e \<Rightarrow> results1)
             else results1)"
  define real where "real = sort_key (\<lambda>r. - score r) (removeDuplicates (settledValues ?settled))"
  define final where "final = (if length results2 > 0 then results2 else real)"
  have s: "search w query n = Inr (slice0 (map (enhanceResult (pageReply w)) final) n)"
    by (simp add: search_def Let_def results1_def [symmetric] results2_def [symmetric]
        getRealSearchResults_def realSearchAttempt_def real_def [symmetric] final_def
        enhanceSearchResults_def)
  have l: "final \<noteq> []"
    if "truthyStr (langSearchApiKey w)" "?lang = Inr (r # rs)" for r rs
  proof -
    from that have "results1 \<noteq> []" by (simp add: results1_def)
    then have "results2 \<noteq> []" by (auto simp: results2_def split: sum.splits)
    then show ?thesis by (simp add: final_def)
  qed
  have b: "final \<noteq> []"
    if "truthyStr (braveApiKey w)" "?brave = Inr (r # rs)" for r rs
  proof -
    from that have "results2 \<noteq> []" by (auto simp: results2_def)
    then show ?thesis by (simp add: final_def)
  qed
  have k: "final \<noteq> []" if "Inr (r # rs) \<in> set ?settled" for r rs
  proof -
    from settledValues_nonempty [OF that] have "removeDuplicates (settledValues ?settled) \<noteq> []"
      by (rule removeDuplicates_nonempty)
    then have "real \<noteq> []"
      unfolding real_def by (metis length_sort length_0_conv)
    then show ?thesis by (simp add: final_def)
  qed
  from s l b k show ?thesis by blast
qed


lemmas search_eval_defs =
  search_def searchWithLangSearch_def searchWithBrave_def searchWithDuckDuckGo_def
  searchWithWikipedia_def searchWithArXiv_def searchWithPubMed_def catchEmpty_def
  getRealSearchResults_def realSearchAttempt_def settledValues_def removeDuplicates_def
  dedupKey_def enhanceSearchResults_def enhanceResult_def scrapeWebContent_def slice0_def
  trim_def isSpaceChar_def orElse_def truthyStr_def offlineWorld_def wikipediaWorld_def
  Let_def

text \<open>
  C1 (as stated). With Wikipedia answering, a request for 0 results returns the empty
  list, the cut to \<^verbatim>\<open>numResults\<close> being the last step; and with no key configured and
  every request failing, a request for 15 results returns the empty list as well.
\<close>

theorem search_empty_counterexample:
  "search wikipediaWorld ''graphene'' 0 = Inr []
   \<and> search offlineWorld ''graphene batteries'' 15 = Inr []"
  by (simp add: search_eval_defs)

text \<open>
  C1 (amended). For every query, every \<^verbatim>\<open>numResults\<close> and every behaviour of the
  providers, \<^verbatim>\<open>search\<close> returns a list and never throws; for \<open>numResults \<ge> 0\<close> the list
  has at most \<^verbatim>\<open>numResults\<close> entries; and for \<open>numResults \<ge> 1\<close> it is non-empty whenever
  a provider that is asked yields at least one result (LangSearch or Brave with its key
  set, or one of the four keyless sources).
\<close>

theorem search_total_bounded:
  "\<exists>rs. search w query n = Inr rs
     \<and> (0 \<le> n \<longrightarrow> int (length rs) \<le> n)
     \<and> (1 \<le> n
        \<and> (truthyStr (langSearchApiKey w)
              \<and> (\<exists>r rs. searchWithLangSearch (hostOf w) (nowIso w) (langSearchReply w) = Inr (r # rs))
            \<or> truthyStr (braveApiKey w)
              \<and> (\<exists>r rs. searchWithBrave (hostOf w) (nowIso w) (braveReply w) = Inr (r # rs))
            \<or> (\<exists>r rs. Inr (r # rs) \<in> set
                  [searchWithDuckDuckGo (hostOf w) (nowIso w) query (duckDuckGoReply w),
                   searchWithWikipedia (nowIso w) query (wikipediaReply w),
                   searchWithArXiv (nowIso w) query (arxivReply w),
                   searchWithPubMed (nowIso w) query (pubmedReply w) (pubmedSummary w)]))
        \<longrightarrow> rs \<noteq> [])"
proof -
  from search_shape [of w query n] obtain finalResults
    where s: "search w query n = Inr (slice0 (map (enhanceResult (pageReply w)) finalResults) n)"
      and ne: "(truthyStr (langSearchApiKey w)
              \<and> (\<exists>r rs. searchWithLangSearch (hostOf w) (nowIso w) (langSearchReply w) = Inr (r # rs))
            \<or> truthyStr (braveApiKey w)
              \<and> (\<exists>r rs. searchWithBrave (hostOf w) (nowIso w) (braveReply w) = Inr (r # rs))
            \<or> (\<exists>r rs. Inr (r # rs) \<in> set
                  [searchWithDuckDuckGo (hostOf w) (nowIso w) query (duckDuckGoReply w),
                   searchWithWikipedia (nowIso w) query (wikipediaReply w),
                   searchWithArXiv (nowIso w) query (arxivReply w),
                   searchWithPubMed (nowIso w) query (pubmedReply w) (pubmedSummary w)]))
         \<Longrightarrow> finalResults \<noteq> []"
    by blast
  let ?out = "slice0 (map (enhanceResult (pageReply w)) finalResults) n"
  have "0 \<le> n \<longrightarrow> int (length ?out) \<le> n"
    using slice0_length [of n "map (enhanceResult (pageReply w)) finalResults"] by auto
  moreover have "?out \<noteq> []" if "1 \<le> n" "finalResults \<noteq> []"
    using that by (intro slice0_nonempty) simp_all
  ultimately show ?thesis using s ne by blast
qed

theorem search_total_bounded_witness:
  "(1::int) \<le> 15
   \<and> searchWithWikipedia (nowIso wikipediaWorld) ''graphene'' (wikipediaReply wikipediaWorld)
       = Inr [\<lparr>title = ''Graphene'', url = ''https://en.wikipedia.org/wiki/Graphene'',
               snippet = ''Graphene is an allotrope of carbon.'', domain = ''wikipedia.org'',
               score = 0.95, published_date = Some ''2025-06-01T00:00:00.000Z'',
               author = Some ''Wikipedia''\<rparr>]
   \<and> search wikipediaWorld ''graphene'' 15 =
       Inr [\<lparr>title = ''Graphene - Wikipedia'', url = ''https://en.wikipedia.org/wiki/Graphene'',
             snippet = ''Graphene is an allotrope of carbon'', domain = ''wikipedia.org'',
             score = 1.05, published_date = Some ''2025-06-01T00:00:00.000Z'',
             author = Some ''Wikipedia''\<rparr>]"
  using search_total_bounded [of wikipediaWorld "''graphene''" 15]
  by (simp add: search_eval_defs)

text \<open>
  C3. The placeholder producer of the route always yields exactly three results built
  from the query, on Google Scholar, PubMed and arXiv, with scores 0.95, 0.92 and 0.88.
  But it is not what a search with zero results returns: with no key configured and
  every provider request failing, the service, the search stage and its retry wrapper
  all return the empty list, after a single attempt; the placeholders are reached only
  when the stage throws.
\<close>

theorem zero_results_return_no_placeholders:
  "search offlineWorld ''graphene batteries'' 15 = Inr []
   \<and> performWebSearch offlineWorld ''graphene batteries'' = Inr []
   \<and> performWebSearchWithRetry (\<lambda>attempt. offlineWorld)
        2025 ''graphene batteries'' 3 = ([], 1, [])
   \<and> performWebSearch (offlineWorld\<lparr>moduleLoads := False\<rparr>) ''graphene batteries''
       = Inr (getEnhancedFallbackResults 2025 ''graphene batteries'')
   \<and> map score (getEnhancedFallbackResults year query) = [0.95, 0.92, 0.88]
   \<and> map title (getEnhancedFallbackResults year query) =
       [''Comprehensive Analysis of '' @ query @ '': Current Research and Applications'',
        query @ '': Systematic Review and Meta-Analysis'',
        ''Recent Advances in '' @ query @ '': A Technical Perspective'']
   \<and> map domain (getEnhancedFallbackResults year query)
       = [''scholar.google.com'', ''pubmed.ncbi.nlm.nih.gov'', ''arxiv.org'']
   \<and> map url (getEnhancedFallbackResults year query)
       = [''https://scholar.google.com/scholar?q='' @ encodeURIComponent query,
          ''https://pubmed.ncbi.nlm.nih.gov/?term='' @ encodeURIComponent query,
          ''https://arxiv.org/search/?query='' @ encodeURIComponent query]
   \<and> map score (SearchService_getEnhancedFallbackResults year query) = [0.95, 0.9, 0.85]
   \<and> map domain (SearchService_getEnhancedFallbackResults year query)
       = [''scholar.google.com'', ''arxiv.org'', ''github.com'']"
proof -
  have stage: "performWebSearch offlineWorld ''graphene batteries'' = Inr []"
    by (simp add: performWebSearch_def webSearchAttempt_def search_eval_defs)
  have "performWebSearchWithRetry (\<lambda>attempt. offlineWorld)
        2025 ''graphene batteries'' 3 = ([], 1, [])"
    by (simp add: performWebSearchWithRetry_def retryLoop.simps stage)
  moreover have "search offlineWorld ''graphene batteries'' 15 = Inr []"
    by (simp add: search_eval_defs)
  moreover have "performWebSearch (offlineWorld\<lparr>moduleLoads := False\<rparr>) ''graphene batteries''
       = Inr (getEnhancedFallbackResults 2025 ''graphene batteries'')"
    by (simp add: performWebSearch_def webSearchAttempt_def offlineWorld_def)
  ultimately show ?thesis
    using stage
    by (simp add: getEnhancedFallbackResults_def SearchService_getEnhancedFallbackResults_def)
qed

section \<open>Domains and scores of search results\<close>

lemma catchEmpty_Inr:
  "catchEmpty body = Inr rs \<Longrightarrow> rs = [] \<or> body = Inr rs"
  by (cases body) (auto simp: catchEmpty_def)

lemma langSearchResult_fields:
  assumes "langSearchResult h now k item = Inr r"
  shows "score r = 1 - real k * 0.05
     \<and> (url r = [] \<and> domain r = [] \<or> h (url r) = Some (domain r))"
proof -
  from assms obtain result where item: "item = Some result"
    by (cases item) (simp_all add: langSearchResult_def)
  show ?thesis
  proof (cases "truthyStr (li_url result)")
    case True
    with assms item show ?thesis
      by (auto simp: langSearchResult_def orElse_def split: option.splits)
  next
    case False
    with assms item show ?thesis
      by (auto simp: langSearchResult_def orElse_def split: option.splits)
  qed
qed

lemma searchWithLangSearch_fields:
  assumes "searchWithLangSearch h now reply = Inr rs"
  shows "\<forall>k<length rs. score (rs ! k) = 1 - real k * 0.05
     \<and> (url (rs ! k) = [] \<and> domain (rs ! k) = [] \<or> h (url (rs ! k)) = Some (domain (rs ! k)))"
proof (cases "rs = []")
  case True
  then show ?thesis by simp
next
  case False
  with assms obtain items where "mapIndexed (langSearchResult h now) 0 items = Inr rs"
    unfolding searchWithLangSearch_def
    by (auto dest!: catchEmpty_Inr split: fetched.splits if_splits)
  from mapIndexed_Inr [OF this] have len: "length rs = length items"
    and nth: "\<And>k. k < length items \<Longrightarrow> langSearchResult h now k (items ! k) = Inr (rs ! k)"
    by auto
  show ?thesis
  proof (intro allI impI)
    fix k assume "k < length rs"
    with len have "langSearchResult h now k (items ! k) = Inr (rs ! k)" by (simp add: nth)
    then show "score (rs ! k) = 1 - real k * 0.05
       \<and> (url (rs ! k) = [] \<and> domain (rs ! k) = [] \<or> h (url (rs ! k)) = Some (domain (rs ! k)))"
      by (rule langSearchResult_fields)
  qed
qed

lemma braveResult_fields:
  assumes "braveResult h now k item = Inr r"
  shows "score r = 0.8 - real k * 0.05 \<and> h (url r) = Some (domain r)"
  using assms by (auto simp: braveResult_def split: option.splits)

lemma searchWithBrave_fields:
  assumes "searchWithBrave h now reply = Inr rs"
  shows "\<forall>k<length rs. score (rs ! k) = 0.8 - real k * 0.05 \<and> h (url (rs ! k)) = Some (domain (rs ! k))"
proof (cases "rs = []")
  case True
  then show ?thesis by simp
next
  case False
  with assms obtain items where "mapIndexed (braveResult h now) 0 items = Inr rs"
    unfolding searchWithBrave_def
    by (auto dest!: catchEmpty_Inr split: fetched.splits if_splits)
  from mapIndexed_Inr [OF this] have len: "length rs = length items"
    and nth: "\<And>k. k < length items \<Longrightarrow> braveResult h now k (items ! k) = Inr (rs ! k)"
    by auto
  show ?thesis
  proof (intro allI impI)
    fix k assume "k < length rs"
    with len have "braveResult h now k (items ! k) = Inr (rs ! k)" by (simp add: nth)
    then show "score (rs ! k) = 0.8 - real k * 0.05 \<and> h (url (rs ! k)) = Some (domain (rs ! k))"
      by (rule braveResult_fields)
  qed
qed

lemma enhanceResult_fields:
  "url (enhanceResult pages r) = url r \<and> domain (enhanceResult pages r) = domain r
   \<and> score (enhanceResult pages r)
       = (if scrapeWebContent (pages (url r)) = None then score r else score r + 0.1)"
  by (auto simp: enhanceResult_def split: option.splits)


lemma ddgTopicResult_fields:
  assumes "ddgTopicResult h now q k topic = Inr found" and "r \<in> set found"
  shows "h (url r) = Some (domain r) \<and> score r = 0.8 - real k * 0.1"
  using assms by (auto simp: ddgTopicResult_def split: if_splits option.splits)

lemma searchWithDuckDuckGo_fields:
  assumes "searchWithDuckDuckGo h now q reply = Inr rs" and "r \<in> set rs"
  shows "(score r = 0.9 \<or> h (url r) = Some (domain r) \<and> (\<exists>k<3. score r = 0.8 - real k * 0.1))"
proof -
  from assms have ne: "rs \<noteq> []" by auto
  with assms(1) obtain data where reply: "reply = Body data"
    unfolding searchWithDuckDuckGo_def
    by (auto dest!: catchEmpty_Inr split: fetched.splits)
  have abstract: "score r = 0.9" if "r \<in> set (ddgAbstractResult now q data)"
    using that by (auto simp: ddgAbstractResult_def split: if_splits)
  show ?thesis
  proof (cases "dd_RelatedTopics data")
    case None
    with assms(1) reply ne have "rs = ddgAbstractResult now q data"
      unfolding searchWithDuckDuckGo_def by (auto dest!: catchEmpty_Inr)
    with assms(2) abstract show ?thesis by simp
  next
    case (Some topics)
    with assms(1) reply ne obtain found
      where found: "mapIndexed (ddgTopicResult h now q) 0 (take 3 topics) = Inr found"
        and rs: "rs = ddgAbstractResult now q data @ concat found"
      unfolding searchWithDuckDuckGo_def by (auto dest!: catchEmpty_Inr split: sum.splits)
    from mapIndexed_Inr [OF found] have len: "length found = length (take 3 topics)"
      and nth: "\<And>k. k < length (take 3 topics) \<Longrightarrow>
          ddgTopicResult h now q k (take 3 topics ! k) = Inr (found ! k)"
      by auto
    from assms(2) rs have "r \<in> set (ddgAbstractResult now q data) \<or> (\<exists>xs\<in>set found. r \<in> set xs)"
      by auto
    then consider "r \<in> set (ddgAbstractResult now q data)"
      | k where "k < length found" "r \<in> set (found ! k)"
      by (metis in_set_conv_nth)
    then show ?thesis
    proof cases
      case 1
      with abstract show ?thesis by simp
    next
      case 2
      with len have k3: "k < 3" by simp
      from 2 len nth [of k] have "ddgTopicResult h now q k (take 3 topics ! k) = Inr (found ! k)"
        by simp
      from ddgTopicResult_fields [OF this 2(2)] k3 show ?thesis by blast
    qed
  qed
qed

lemma rerankResults_candidates:
  assumes "rerankResults w query results topN = Inr out" and "r' \<in> set out"
  shows "\<exists>r\<in>set results. url r' = url r \<and> domain r' = domain r"
proof (cases "out = slice0 results topN")
  case True
  with assms(2) have "r' \<in> set results"
    by (auto simp: slice0_def dest: in_set_takeD split: if_splits)
  then show ?thesis by blast
next
  case False
  with assms(1) have ne: "results \<noteq> []"
    and att: "rerankAttempt w query results topN = Inr out"
    by (auto simp: rerankResults_def split: if_splits sum.splits)
  from att False obtain items
    where m: "mapIndexed (rerankedResult (parseInt w) results) 0 items = Inr out"
    by (auto simp: rerankAttempt_def split: fetched.splits if_splits option.splits)
  from mapIndexed_Inr [OF m] have len: "length out = length items"
    and nth: "\<And>k. k < length items \<Longrightarrow>
        rerankedResult (parseInt w) results k (items ! k) = Inr (out ! k)"
    by auto
  from assms(2) obtain k where k: "k < length out" "r' = out ! k"
    by (auto simp: in_set_conv_nth)
  with len nth [of k] have "rerankedResult (parseInt w) results k (items ! k) = Inr r'" by simp
  then obtain idx v where "r' = (originalAt results idx)\<lparr>score := v\<rparr>"
    by (auto simp: rerankedResult_def split: option.splits)
  moreover have "originalAt results idx \<in> set results"
    using originalAt_resolves [OF ne] by blast
  ultimately show ?thesis by auto
qed

lemma searchWithWikipedia_fields:
  assumes "searchWithWikipedia now q reply = Inr rs" and "r \<in> set rs"
  shows "domain r = ''wikipedia.org'' \<and> score r = 0.95"
  using assms
  by (cases reply) (auto simp: searchWithWikipedia_def catchEmpty_def)

lemma searchWithArXiv_fields:
  assumes "searchWithArXiv now q reply = Inr rs" and "r \<in> set rs"
  shows "domain r = ''arxiv.org'' \<and> 0 \<le> score r \<and> score r \<le> 1"
proof -
  from assms obtain entries
    where "r \<in> set (map (\<lambda>(index, entry). arxivResult now q index entry) (zip [0..<3] (take 3 entries)))"
    by (cases reply) (auto simp: searchWithArXiv_def catchEmpty_def)
  then obtain index entry where ie: "(index, entry) \<in> set (zip [0..<3] (take 3 entries))"
    and r: "r = arxivResult now q index entry"
    by auto
  from ie have "index \<in> set [0..<3]" by (rule set_zip_leftD)
  then have "real index \<le> 2" by simp
  with r show ?thesis by (simp add: arxivResult_def)
qed

lemma pubmedLoop_fields:
  "pubmedLoop now q summary ids = Inr rs \<Longrightarrow> r \<in> set rs \<Longrightarrow>
     domain r = ''pubmed.ncbi.nlm.nih.gov'' \<and> score r = 0.85"
proof (induction ids arbitrary: rs)
  case Nil
  then show ?case by simp
next
  case (Cons ident ids)
  show ?case
  proof (cases "summary ident")
    case FetchThrows
    with Cons.prems show ?thesis by simp
  next
    case NotOk
    with Cons show ?thesis by simp
  next
    case BadBody
    with Cons.prems show ?thesis by simp
  next
    case (Body article)
    show ?thesis
    proof (cases article)
      case None
      with Body Cons show ?thesis by simp
    next
      case (Some a)
      with Body Cons.prems(1) obtain rest where rest: "pubmedLoop now q summary ids = Inr rest"
        and rs: "rs = pubmedResult now q ident a # rest"
        by (auto split: sum.splits)
      from Cons.prems(2) rs consider "r = pubmedResult now q ident a" | "r \<in> set rest" by auto
      then show ?thesis
      proof cases
        case 1
        then show ?thesis by (simp add: pubmedResult_def)
      next
        case 2
        with Cons.IH [OF rest] show ?thesis by simp
      qed
    qed
  qed
qed

lemma searchWithPubMed_fields:
  assumes "searchWithPubMed now q reply summary = Inr rs" and "r \<in> set rs"
  shows "domain r = ''pubmed.ncbi.nlm.nih.gov'' \<and> score r = 0.85"
proof -
  from assms have "rs \<noteq> []" by auto
  with assms(1) obtain idlist where "pubmedLoop now q summary (take 3 idlist) = Inr rs"
    unfolding searchWithPubMed_def
    by (auto dest!: catchEmpty_Inr split: fetched.splits option.splits)
  from pubmedLoop_fields [OF this assms(2)] show ?thesis .
qed

text \<open>
  C5 (as stated). With only Wikipedia answering, the one result \<^verbatim>\<open>search\<close> returns has
  the domain \<^verbatim>\<open>wikipedia.org\<close>, set as a constant, while the host of its url is
  \<^verbatim>\<open>en.wikipedia.org\<close>; and its score is 0.95 plus the enrichment boost of 0.1, above 1.
\<close>

theorem score_domain_invariant_counterexample:
  "search wikipediaWorld ''graphene'' 15 =
     Inr [\<lparr>title = ''Graphene - Wikipedia'', url = ''https://en.wikipedia.org/wiki/Graphene'',
           snippet = ''Graphene is an allotrope of carbon'', domain = ''wikipedia.org'',
           score = 1.05, published_date = Some ''2025-06-01T00:00:00.000Z'',
           author = Some ''Wikipedia''\<rparr>]
   \<and> hostOf wikipediaWorld ''https://en.wikipedia.org/wiki/Graphene'' = Some ''en.wikipedia.org''
   \<and> ''wikipedia.org'' \<noteq> ''en.wikipedia.org''
   \<and> \<not> (1.05 :: real) \<le> 1"
  by (simp add: search_eval_defs)

text \<open>
  C5 (amended). The LangSearch and Brave mappers give each result the host of its url
  as domain (LangSearch: the empty domain for a missing url) and the positional score
  \<open>1 - 0.05 * index\<close> resp. \<open>0.8 - 0.05 * index\<close>, which is at most 1; every
  DuckDuckGo result has a score in \<open>[0, 1]\<close> and is the abstract result, of score 0.9,
  or carries the host of its url as domain. Wikipedia, arXiv and PubMed results carry
  the constant domains \<^verbatim>\<open>wikipedia.org\<close>, \<^verbatim>\<open>arxiv.org\<close> and
  \<^verbatim>\<open>pubmed.ncbi.nlm.nih.gov\<close> and scores in \<open>[0, 1]\<close>. Enrichment never changes
  url or domain and adds exactly 0.1 to the score of a result whose page could be
  scraped; reranking returns candidates with their url and domain unchanged. So a domain
  derived from the url stays so through reranking and enrichment, while scores may leave
  \<open>[0, 1]\<close>.
\<close>

theorem provider_domains_and_scores:
  "(searchWithLangSearch h now langAnswer = Inr ls
      \<longrightarrow> (\<forall>k<length ls. score (ls ! k) = 1 - real k * 0.05 \<and> score (ls ! k) \<le> 1
             \<and> (url (ls ! k) = [] \<and> domain (ls ! k) = [] \<or> h (url (ls ! k)) = Some (domain (ls ! k)))))
   \<and> (searchWithBrave h now braveAnswer = Inr bs
      \<longrightarrow> (\<forall>k<length bs. score (bs ! k) = 0.8 - real k * 0.05 \<and> score (bs ! k) \<le> 1
             \<and> h (url (bs ! k)) = Some (domain (bs ! k))))
   \<and> (searchWithDuckDuckGo h now query ddgAnswer = Inr ds
      \<longrightarrow> (\<forall>r\<in>set ds. 0 \<le> score r \<and> score r \<le> 1
             \<and> (score r = 0.9 \<or> h (url r) = Some (domain r))))
   \<and> (searchWithWikipedia now query wikiAnswer = Inr ws
      \<longrightarrow> (\<forall>r\<in>set ws. domain r = ''wikipedia.org'' \<and> score r = 0.95))
   \<and> (searchWithArXiv now query arxivAnswer = Inr xs
      \<longrightarrow> (\<forall>r\<in>set xs. domain r = ''arxiv.org'' \<and> 0 \<le> score r \<and> score r \<le> 1))
   \<and> (searchWithPubMed now query pubmedAnswer summaries = Inr ps
      \<longrightarrow> (\<forall>r\<in>set ps. domain r = ''pubmed.ncbi.nlm.nih.gov'' \<and> score r = 0.85))
   \<and> enhanceSearchResults pages rs = Inr (map (enhanceResult pages) rs)
   \<and> url (enhanceResult pages r) = url r
   \<and> domain (enhanceResult pages r) = domain r
   \<and> score (enhanceResult pages r)
       = (if scrapeWebContent (pages (url r)) = None then score r else score r + 0.1)
   \<and> (rerankResults w query rs topN = Inr out
      \<longrightarrow> (\<forall>r'\<in>set out. \<exists>c\<in>set rs. url r' = url c \<and> domain r' = domain c))"
proof (intro conjI impI)
  assume "searchWithLangSearch h now langAnswer = Inr ls"
  from searchWithLangSearch_fields [OF this]
  show "\<forall>k<length ls. score (ls ! k) = 1 - real k * 0.05 \<and> score (ls ! k) \<le> 1
     \<and> (url (ls ! k) = [] \<and> domain (ls ! k) = [] \<or> h (url (ls ! k)) = Some (domain (ls ! k)))"
    by auto
next
  assume "searchWithBrave h now braveAnswer = Inr bs"
  from searchWithBrave_fields [OF this]
  show "\<forall>k<length bs. score (bs ! k) = 0.8 - real k * 0.05 \<and> score (bs ! k) \<le> 1
     \<and> h (url (bs ! k)) = Some (domain (bs ! k))"
    by auto
next
  assume ddg: "searchWithDuckDuckGo h now query ddgAnswer = Inr ds"
  show "\<forall>r\<in>set ds. 0 \<le> score r \<and> score r \<le> 1 \<and> (score r = 0.9 \<or> h (url r) = Some (domain r))"
  proof
    fix r assume "r \<in> set ds"
    from searchWithDuckDuckGo_fields [OF ddg this]
    consider "score r = 0.9"
      | k where "h (url r) = Some (domain r)" "k < 3" "score r = 0.8 - real k * 0.1"
      by blast
    then show "0 \<le> score r \<and> score r \<le> 1 \<and> (score r = 0.9 \<or> h (url r) = Some (domain r))"
    proof cases
      case 1
      then show ?thesis by simp
    next
      case 2
      from 2(2) have "real k \<le> 2" by simp
      with 2 show ?thesis by simp
    qed
  qed
next
  assume "searchWithWikipedia now query wikiAnswer = Inr ws"
  then show "\<forall>r\<in>set ws. domain r = ''wikipedia.org'' \<and> score r = 0.95"
    using searchWithWikipedia_fields by blast
next
  assume "searchWithArXiv now query arxivAnswer = Inr xs"
  then show "\<forall>r\<in>set xs. domain r = ''arxiv.org'' \<and> 0 \<le> score r \<and> score r \<le> 1"
    using searchWithArXiv_fields by blast
next
  assume "searchWithPubMed now query pubmedAnswer summaries = Inr ps"
  then show "\<forall>r\<in>set ps. domain r = ''pubmed.ncbi.nlm.nih.gov'' \<and> score r = 0.85"
    using searchWithPubMed_fields by blast
next
  show "enhanceSearchResults pages rs = Inr (map (enhanceResult pages) rs)"
    by (simp add: enhanceSearchResults_def)
  show "url (enhanceResult pages r) = url r" "domain (enhanceResult pages r) = domain r"
    "score (enhanceResult pages r)
       = (if scrapeWebContent (pages (url r)) = None then score r else score r + 0.1)"
    using enhanceResult_fields [of pages r] by simp_all
next
  assume "rerankResults w query rs topN = Inr out"
  then show "\<forall>r'\<in>set out. \<exists>c\<in>set rs. url r' = url c \<and> domain r' = domain c"
    using rerankResults_candidates by blast
qed

theorem provider_domains_and_scores_witness:
  "searchWithLangSearch (hostOf langWorld) (nowIso langWorld) (langSearchReply langWorld)
     = Inr [\<lparr>title = ''Alpha'', url = ''https://a.org/1'', snippet = ''first'', domain = ''a.org'',
             score = 1, published_date = Some ''2025-06-01T00:00:00.000Z'',
             author = Some ''Unknown''\<rparr>]
   \<and> hostOf langWorld ''https://a.org/1'' = Some ''a.org''
   \<and> search langWorld ''alpha'' 15
     = Inr [\<lparr>title = ''Alpha page'', url = ''https://a.org/1'', snippet = ''All about alpha'',
             domain = ''a.org'', score = 1.1, published_date = Some ''2025-06-01T00:00:00.000Z'',
             author = Some ''Unknown''\<rparr>]
   \<and> rerankResults rerankWorld ''q'' [candidateA, candidateB] 10
       = Inr [candidateB\<lparr>score := 0.9\<rparr>, candidateA\<lparr>score := 0.9\<rparr>]
   \<and> map url [candidateB\<lparr>score := 0.9\<rparr>, candidateA\<lparr>score := 0.9\<rparr>] = map url [candidateB, candidateA]
   \<and> map domain [candidateB\<lparr>score := 0.9\<rparr>, candidateA\<lparr>score := 0.9\<rparr>]
       = map domain [candidateB, candidateA]"
proof -
  have lang: "searchWithLangSearch (hostOf langWorld) (nowIso langWorld) (langSearchReply langWorld)
     = Inr [\<lparr>title = ''Alpha'', url = ''https://a.org/1'', snippet = ''first'', domain = ''a.org'',
             score = 1, published_date = Some ''2025-06-01T00:00:00.000Z'',
             author = Some ''Unknown''\<rparr>]"
    by (simp add: langWorld_def offlineWorld_def searchWithLangSearch_def catchEmpty_def
        codeIsError_def langSearchResult_def orElse_def orStr_def truthyStr_def)
  have rerank: "rerankResults rerankWorld ''q'' [candidateA, candidateB] 10
       = Inr [candidateB\<lparr>score := 0.9\<rparr>, candidateA\<lparr>score := 0.9\<rparr>]"
    by (simp add: rerankResults_def rerankAttempt_def rerankedResult_def originalAt_def
        codeIsError_def orElse_def rerankWorld_def offlineWorld_def route_eval_defs)
  have all: "search langWorld ''alpha'' 15
     = Inr [\<lparr>title = ''Alpha page'', url = ''https://a.org/1'', snippet = ''All about alpha'',
             domain = ''a.org'', score = 1.1, published_date = Some ''2025-06-01T00:00:00.000Z'',
             author = Some ''Unknown''\<rparr>]"
    by (simp add: search_eval_defs langWorld_def codeIsError_def langSearchResult_def orStr_def)
  show ?thesis
    using provider_domains_and_scores
      [where h = "hostOf langWorld" and now = "nowIso langWorld"
         and langAnswer = "langSearchReply langWorld" and braveAnswer = FetchThrows and bs = "[]"
         and query = "''q''" and ddgAnswer = FetchThrows and ds = "[]"
         and wikiAnswer = FetchThrows and ws = "[]" and arxivAnswer = FetchThrows and xs = "[]"
         and pubmedAnswer = FetchThrows and summaries = "\<lambda>ident. FetchThrows" and ps = "[]"
         and pages = "pageReply langWorld" and rs = "[candidateA, candidateB]" and r = candidateA
         and w = rerankWorld and topN = 10
         and out = "[candidateB\<lparr>score := 0.9\<rparr>, candidateA\<lparr>score := 0.9\<rparr>]"]
      lang rerank all
    by (simp add: langWorld_def offlineWorld_def candidateA_def candidateB_def)
qed

end
